theory Spec2Isabelle
  imports Complex_Main "HOL-Library.AList" "HOL-Library.Signed_Division"
begin

section \<open>Conventions of the embedding\<close>

text \<open>
  The bond trading system is a set of C++ services that call each other synchronously.
  Every service is embedded as a record of its private members, every member function as
  a HOL function that takes the service and returns the updated service together with the
  deliveries it made to its registered listeners, in order.

  \<^item> \<open>double\<close> is embedded as \<open>rat\<close>. An operation on doubles is embedded where
    its result is exact: comparisons and stores always, a subtraction of prices on the
    grid of the price notation (multiples of \<open>1/256\<close>), a conversion of a \<open>long\<close> of
    magnitude at most \<open>2 ^ 53\<close>. Where the code would round, the embedding returns
    \<open>OutsideModel\<close>. NaN and infinities are outside the embedding.
  \<^item> \<open>long\<close> is embedded as \<open>int\<close> with 64-bit two's-complement arithmetic:
    \<open>long_add\<close> and \<open>long_neg\<close> wrap around, as the compiled code does (C++ leaves
    signed overflow undefined). \<open>int\<close> is the 32-bit range; the conversion of a
    \<open>double\<close> to \<open>int\<close> or \<open>long\<close> checks the range, since the C++ conversion is
    undefined outside it. The remainder operator \<open>%\<close> truncates towards zero and is
    \<open>smod\<close>.
  \<^item> A thrown exception and undefined behaviour are values of type \<open>failure\<close>; a function
    that can fail returns \<open>failure + 'a\<close>.
  \<^item> A \<open>std::map\<close> or \<open>std::unordered_map\<close> whose entries are enumerated is an
    association list with the lookup \<open>map_of\<close>; a map that is only looked up by key is a
    HOL map.
  \<^item> A registered listener is identified by a number; calling its \<open>ProcessAdd\<close> with an
    event \<open>e\<close> is the delivery \<open>(l, e)\<close>.
\<close>

datatype failure =
    InvalidArgument       \<comment> \<open>\<open>std::invalid_argument\<close> thrown\<close>
  | OutOfRange            \<comment> \<open>\<open>std::out_of_range\<close> thrown by \<open>map::at\<close> and \<open>std::stoi\<close>\<close>
  | UndefinedBehaviour    \<comment> \<open>nothing is thrown: unchecked read outside a vector,
                              conversion of a double outside the range of \<open>int\<close>\<close>
  | OutsideModel          \<comment> \<open>an input on which the embedding does not follow the library\<close>

fun thrown :: "failure \<Rightarrow> bool" where
  "thrown InvalidArgument = True"
| "thrown OutOfRange = True"
| "thrown UndefinedBehaviour = False"
| "thrown OutsideModel = False"

type_synonym listener = nat

text \<open>The loop \<open>for (auto& ls : listeners) ls->ProcessAdd(e)\<close>.\<close>

definition notify :: "listener list \<Rightarrow> 'e \<Rightarrow> (listener \<times> 'e) list" where
  "notify ls e = map (\<lambda>l. (l, e)) ls"

text \<open>The values of a \<open>long\<close>, and its arithmetic.\<close>

definition is_long :: "int \<Rightarrow> bool" where
  "is_long x = (- (2 ^ 63) \<le> x \<and> x < 2 ^ 63)"

definition wrap_long :: "int \<Rightarrow> int" where
  "wrap_long x = (x + 2 ^ 63) mod 2 ^ 64 - 2 ^ 63"

definition long_add :: "int \<Rightarrow> int \<Rightarrow> int" where
  "long_add a b = wrap_long (a + b)"

definition long_neg :: "int \<Rightarrow> int" where
  "long_neg a = wrap_long (- a)"

text \<open>
  \<open>m[k] += q\<close> on a map with \<open>long\<close> values: a missing key is first inserted with
  the value 0. The association list keeps one entry per key; the order of its entries is not
  the order in which the C++ map is enumerated, and nothing below depends on it.
\<close>

definition map_plus_eq :: "'k \<Rightarrow> int \<Rightarrow> ('k \<times> int) list \<Rightarrow> ('k \<times> int) list" where
  "map_plus_eq k q m =
     AList.update k (long_add (case map_of m k of None \<Rightarrow> 0 | Some v \<Rightarrow> v) q) m"

text \<open>
  Modelled from the spec: \<open>products.hpp\<close> is not among the sources. The services use a
  product only through \<open>GetProductId()\<close>; the spec describes a product as an immutable
  identity with an id, so a product is its id. A default-constructed product has the
  empty id.
\<close>

record Product =
  productId :: string

definition default_Product :: Product where
  "default_Product = \<lparr>productId = ''''\<rparr>"

section \<open>marketdataservice.hpp\<close>

datatype PricingSide = BID | OFFER

record Order =
  orderPrice :: rat
  orderQuantity :: int
  orderSide :: PricingSide

record BidOffer =
  bidOrder :: Order
  offerOrder :: Order

record OrderBook =
  bookProduct :: Product
  bidStack :: "Order list"
  offerStack :: "Order list"

definition default_OrderBook :: OrderBook where
  "default_OrderBook = \<lparr>bookProduct = default_Product, bidStack = [], offerStack = []\<rparr>"

text \<open>
  The two loops of \<open>OrderBook::GetBidOffer\<close>, started at index 1 with element 0 as the
  first candidate. \<open>bestBidPrice\<close> is always the price of \<open>bestBid\<close>, so the candidate
  alone is the loop state.
\<close>

fun best_bid_loop :: "Order \<Rightarrow> Order list \<Rightarrow> Order" where
  "best_bid_loop bestBid [] = bestBid"
| "best_bid_loop bestBid (cur # rest) =
     (if orderPrice cur > orderPrice bestBid then best_bid_loop cur rest
      else best_bid_loop bestBid rest)"

fun best_offer_loop :: "Order \<Rightarrow> Order list \<Rightarrow> Order" where
  "best_offer_loop bestOffer [] = bestOffer"
| "best_offer_loop bestOffer (cur # rest) =
     (if orderPrice cur < orderPrice bestOffer then best_offer_loop cur rest
      else best_offer_loop bestOffer rest)"

text \<open>
  \<open>bidStack[0]\<close> and \<open>offerStack[0]\<close> are unchecked reads: on an empty vector the
  behaviour is undefined, and nothing is thrown.
\<close>

definition GetBidOffer :: "OrderBook \<Rightarrow> failure + BidOffer" where
  "GetBidOffer book =
     (case bidStack book of
        [] \<Rightarrow> Inl UndefinedBehaviour
      | b0 # bs \<Rightarrow>
          (case offerStack book of
             [] \<Rightarrow> Inl UndefinedBehaviour
           | o0 # os \<Rightarrow>
               Inr \<lparr>bidOrder = best_bid_loop b0 bs, offerOrder = best_offer_loop o0 os\<rparr>))"

record MarketDataService =
  orderBooks :: "string \<rightharpoonup> OrderBook"
  mdListeners :: "listener list"
  bookDepth :: int

text \<open>\<open>orderBooks[key]\<close>: a missing key is inserted with a default-constructed book.\<close>

definition orderBooks_at :: "MarketDataService \<Rightarrow> string \<Rightarrow> MarketDataService \<times> OrderBook" where
  "orderBooks_at svc key =
     (case orderBooks svc key of
        Some book \<Rightarrow> (svc, book)
      | None \<Rightarrow> (svc\<lparr>orderBooks := (orderBooks svc)(key \<mapsto> default_OrderBook)\<rparr>,
                 default_OrderBook))"

definition GetBestBidOffer ::
  "MarketDataService \<Rightarrow> string \<Rightarrow> MarketDataService \<times> (failure + BidOffer)" where
  "GetBestBidOffer svc productId' =
     (let (svc', book) = orderBooks_at svc productId' in (svc', GetBidOffer book))"

section \<open>utility.hpp\<close>

subsection \<open>The standard library functions used by the price conversion\<close>

definition then_do :: "failure + 'a \<Rightarrow> ('a \<Rightarrow> failure + 'b) \<Rightarrow> failure + 'b" where
  "then_do r f = (case r of Inl e \<Rightarrow> Inl e | Inr v \<Rightarrow> f v)"

definition isdigit :: "char \<Rightarrow> bool" where
  "isdigit c = (48 \<le> (of_char c :: nat) \<and> (of_char c :: nat) \<le> 57)"

definition isspace :: "char \<Rightarrow> bool" where
  "isspace c = ((of_char c :: nat) = 32 \<or> (9 \<le> (of_char c :: nat) \<and> (of_char c :: nat) \<le> 13))"

definition digit_char :: "nat \<Rightarrow> char" where
  "digit_char d = char_of (48 + d)"

text \<open>The value of a string of decimal digits, most significant digit first.\<close>

fun digits_value :: "int \<Rightarrow> string \<Rightarrow> int" where
  "digits_value acc [] = acc"
| "digits_value acc (c # cs) = digits_value (10 * acc + (of_char c - 48)) cs"

text \<open>\<open>std::to_string\<close> on an \<open>int\<close>: decimal digits, with a minus sign when negative.\<close>

fun to_string_nat :: "nat \<Rightarrow> string" where
  "to_string_nat n =
     (if n < 10 then [digit_char n] else to_string_nat (n div 10) @ [digit_char (n mod 10)])"

declare to_string_nat.simps [simp del]

definition to_string :: "int \<Rightarrow> string" where
  "to_string i = (if i < 0 then CHR ''-'' # to_string_nat (nat (- i)) else to_string_nat (nat i))"

text \<open>
  \<open>std::stod\<close>. The embedding follows it on the empty string, which it rejects with
  \<open>std::invalid_argument\<close>, and on a string of decimal digits whose value is at most
  \<open>2 ^ 53\<close>, which a double holds exactly. On any other text (white space, a sign, a
  fraction, an exponent, more digits than a double holds) the embedding says nothing about
  the result: \<open>OutsideModel\<close>.
\<close>

definition stod :: "string \<Rightarrow> failure + rat" where
  "stod s =
     (if s = [] then Inl InvalidArgument
      else if list_all isdigit s \<and> digits_value 0 s \<le> 2 ^ 53 then Inr (of_int (digits_value 0 s))
      else Inl OutsideModel)"

text \<open>
  \<open>std::stoi\<close> in base 10: leading white space is skipped, one sign is accepted, the
  longest run of digits is converted; without a digit it throws \<open>std::invalid_argument\<close>,
  with a value outside \<open>int\<close> it throws \<open>std::out_of_range\<close>.
\<close>

definition stoi :: "string \<Rightarrow> failure + int" where
  "stoi s =
     (let t = dropWhile isspace s;
          neg = (t \<noteq> [] \<and> hd t = CHR ''-'');
          u = (if t \<noteq> [] \<and> (hd t = CHR ''-'' \<or> hd t = CHR ''+'') then tl t else t);
          ds = takeWhile isdigit u;
          v = (if neg then - digits_value 0 ds else digits_value 0 ds)
      in if ds = [] then Inl InvalidArgument
         else if - (2 ^ 31) \<le> v \<and> v < 2 ^ 31 then Inr v
         else Inl OutOfRange)"

text \<open>
  \<open>static_cast<int>\<close> of a double: the fraction is discarded, and the behaviour is
  undefined when the trunc_toward_zerod value is not an \<open>int\<close>.
\<close>

definition trunc_toward_zero :: "rat \<Rightarrow> int" where
  "trunc_toward_zero d = (if d < 0 then - \<lfloor>- d\<rfloor> else \<lfloor>d\<rfloor>)"

definition static_cast_int :: "rat \<Rightarrow> failure + int" where
  "static_cast_int d =
     (if - (2 ^ 31) \<le> trunc_toward_zero d \<and> trunc_toward_zero d < 2 ^ 31 then Inr (trunc_toward_zero d)
      else Inl UndefinedBehaviour)"

text \<open>
  \<open>static_cast<long>\<close> of a double, and the conversion of a \<open>long\<close> to a double,
  which is exact up to \<open>2 ^ 53\<close> and rounds beyond.
\<close>

definition static_cast_long :: "rat \<Rightarrow> failure + int" where
  "static_cast_long d =
     (if is_long (trunc_toward_zero d) then Inr (trunc_toward_zero d)
      else Inl UndefinedBehaviour)"

definition double_of_long :: "int \<Rightarrow> failure + rat" where
  "double_of_long q = (if \<bar>q\<bar> \<le> 2 ^ 53 then Inr (of_int q) else Inl OutsideModel)"

text \<open>
  The subtraction of two doubles. When both are multiples of \<open>1/256\<close> of magnitude at
  most \<open>2 ^ 44\<close>, as the prices that \<open>string2price\<close> reads are, the difference has at
  most 53 significant bits and the subtraction is exact. On other operands it may round.
\<close>

definition on_price_grid :: "rat \<Rightarrow> bool" where
  "on_price_grid p = (of_int \<lfloor>p * 256\<rfloor> = p * 256 \<and> \<bar>p\<bar> \<le> 2 ^ 44)"

definition double_minus :: "rat \<Rightarrow> rat \<Rightarrow> failure + rat" where
  "double_minus a b =
     (if on_price_grid a \<and> on_price_grid b then Inr (a - b) else Inl OutsideModel)"

text \<open>
  \<open>fractional[i]\<close> on a \<open>const std::string\<close>: the character at \<open>i\<close>, the null
  character at \<open>i = size()\<close>, undefined beyond.
\<close>

definition string_at :: "string \<Rightarrow> nat \<Rightarrow> failure + char" where
  "string_at s i =
     (if i < length s then Inr (s ! i)
      else if i = length s then Inr (char_of (0 :: nat))
      else Inl UndefinedBehaviour)"

text \<open>\<open>fractional.find('-')\<close>: the index of the first dash, \<open>None\<close> for \<open>npos\<close>.\<close>

definition find_dash :: "string \<Rightarrow> nat option" where
  "find_dash s =
     (let n = length (takeWhile (\<lambda>c. c \<noteq> CHR ''-'') s)
      in if n < length s then Some n else None)"

text \<open>\<open>s.substr(pos, n)\<close> for \<open>pos \<le> s.size()\<close>.\<close>

definition substr :: "string \<Rightarrow> nat \<Rightarrow> nat \<Rightarrow> string" where
  "substr s pos n = take n (drop pos s)"

subsection \<open>string2price and price2string\<close>

definition string2price :: "string \<Rightarrow> failure + rat" where
  "string2price fractional =
     (case find_dash fractional of
        None \<Rightarrow> Inl InvalidArgument
      | Some dashPos \<Rightarrow>
          then_do (stod (substr fractional 0 dashPos)) (\<lambda>basePrice.
          then_do (stoi (substr fractional (dashPos + 1) 2)) (\<lambda>xy.
          then_do (string_at fractional (dashPos + 3)) (\<lambda>zChar.
            let z = (if zChar = CHR ''+'' then 4 else int (of_char zChar) - 48)
            in if xy < 0 \<or> xy > 31 \<or> z < 0 \<or> z > 7 then Inl InvalidArgument
               else Inr (basePrice + of_int xy / 32 + of_int z / 256)))))"

definition price2string :: "rat \<Rightarrow> failure + string" where
  "price2string decimal =
     then_do (static_cast_int decimal) (\<lambda>basePrice.
       let fractionalPart = decimal - of_int basePrice in
       then_do (static_cast_int (fractionalPart * 32)) (\<lambda>xy.
       then_do (static_cast_int (fractionalPart * 256)) (\<lambda>z256.
         let z = z256 smod 8;
             zChar = (if z = 4 then CHR ''+'' else char_of (48 + z))
         in Inr (to_string basePrice @ ''-'' @ (if xy < 10 then ''0'' else '''')
                 @ to_string xy @ [zChar]))))"

section \<open>execution.hpp and AlgoExecutionService.hpp\<close>

datatype OrderType = FOK | IOC | MARKET | LIMIT | STOP

record ExecutionOrder =
  eoProduct :: Product
  eoSide :: PricingSide
  orderId :: string
  orderType :: OrderType
  eoPrice :: rat
  visibleQuantity :: int
  hiddenQuantity :: int
  parentOrderId :: string
  isChildOrder :: bool

text \<open>
  The constructor of \<open>ExecutionOrder\<close> takes both quantities as \<open>double\<close> and stores
  \<open>static_cast<long>\<close> of them.
\<close>

definition new_ExecutionOrder ::
  "Product \<Rightarrow> PricingSide \<Rightarrow> string \<Rightarrow> OrderType \<Rightarrow> rat \<Rightarrow> rat \<Rightarrow> rat \<Rightarrow> string \<Rightarrow> bool
   \<Rightarrow> failure + ExecutionOrder" where
  "new_ExecutionOrder prd ps oid ot pr visQty hidQty parentOid childFlag =
     then_do (static_cast_long visQty) (\<lambda>vis.
     then_do (static_cast_long hidQty) (\<lambda>hid.
       Inr \<lparr>eoProduct = prd, eoSide = ps, orderId = oid, orderType = ot, eoPrice = pr,
            visibleQuantity = vis, hiddenQuantity = hid,
            parentOrderId = parentOid, isChildOrder = childFlag\<rparr>))"

text \<open>
  An \<open>AlgoExecution\<close> owns a pointer to an execution order that its constructor
  allocates with the arguments it is given; the order is never shared. The constructor
  takes the quantities as \<open>long\<close> and passes them to the constructor above, which
  converts them to \<open>double\<close>.
\<close>

record AlgoExecution =
  executionOrder :: ExecutionOrder

definition new_AlgoExecution ::
  "Product \<Rightarrow> PricingSide \<Rightarrow> string \<Rightarrow> OrderType \<Rightarrow> rat \<Rightarrow> int \<Rightarrow> int \<Rightarrow> string \<Rightarrow> bool
   \<Rightarrow> failure + AlgoExecution" where
  "new_AlgoExecution prd ps oid ot pr visQty hidQty parentOid childFlag =
     then_do (double_of_long visQty) (\<lambda>vis.
     then_do (double_of_long hidQty) (\<lambda>hid.
     then_do (new_ExecutionOrder prd ps oid ot pr vis hid parentOid childFlag) (\<lambda>eo.
       Inr \<lparr>executionOrder = eo\<rparr>)))"

record AlgoExecutionService =
  algoExecutions :: "string \<rightharpoonup> AlgoExecution"
  aeListeners :: "listener list"
  executionCount :: int

text \<open>The constructor: no executions, no listeners, the counter at 0.\<close>

definition new_AlgoExecutionService :: AlgoExecutionService where
  "new_AlgoExecutionService =
     \<lparr>algoExecutions = Map.empty, aeListeners = [], executionCount = 0\<rparr>"

definition AlgoExecutionService_AddListener ::
  "AlgoExecutionService \<Rightarrow> listener \<Rightarrow> AlgoExecutionService" where
  "AlgoExecutionService_AddListener svc l = svc\<lparr>aeListeners := aeListeners svc @ [l]\<rparr>"

text \<open>
  \<open>AlgoExecutionTrade\<close>. The best bid and offer are read through \<open>GetBidOffer\<close>, whose
  undefined behaviour on an empty side is inherited. The spread is a subtraction of
  doubles. The parity test uses the counter before \<open>executionCount++\<close>, the order id the
  counter after it.
\<close>

definition AlgoExecutionTrade ::
  "AlgoExecutionService \<Rightarrow> OrderBook
   \<Rightarrow> failure + AlgoExecutionService \<times> (listener \<times> AlgoExecution) list" where
  "AlgoExecutionTrade svc orderBookObj =
     then_do (GetBidOffer orderBookObj) (\<lambda>bo.
       let prodId = productId (bookProduct orderBookObj);
           bestBid = bidOrder bo;
           bestOffer = offerOrder bo;
           bidPrice = orderPrice bestBid;
           bidQty = orderQuantity bestBid;
           offerPrice = orderPrice bestOffer;
           offerQty = orderQuantity bestOffer
       in then_do (double_minus offerPrice bidPrice) (\<lambda>spread.
            if spread \<le> 1 / 128 then
              let (chosenPrice, chosenQty, chosenSide) =
                    (if executionCount svc smod 2 = 1 then (bidPrice, bidQty, BID)
                     else (offerPrice, offerQty, OFFER));
                  cnt = long_add (executionCount svc) 1;
                  oid = ''AlgoExec'' @ to_string cnt
              in then_do (new_AlgoExecution (bookProduct orderBookObj) chosenSide oid MARKET
                            chosenPrice chosenQty 0 ''PARENT_ORDER_ID'' False) (\<lambda>algoExec.
                   Inr (svc\<lparr>executionCount := cnt,
                            algoExecutions := (algoExecutions svc)(prodId \<mapsto> algoExec)\<rparr>,
                        notify (aeListeners svc) algoExec))
            else Inr (svc, [])))"

section \<open>tradebookingservice.hpp\<close>

datatype Side = BUY | SELL

record Trade =
  tradeProduct :: Product
  tradeId :: string
  tradePrice :: rat
  tradeBook :: string
  tradeQuantity :: int
  tradeSide :: Side

record TradeBookingService =
  trades :: "string \<rightharpoonup> Trade"
  tbListeners :: "listener list"

definition TradeBookingService_OnMessage ::
  "TradeBookingService \<Rightarrow> Trade \<Rightarrow> TradeBookingService \<times> (listener \<times> Trade) list" where
  "TradeBookingService_OnMessage svc data =
     (svc\<lparr>trades := (trades svc)(tradeId data \<mapsto> data)\<rparr>, notify (tbListeners svc) data)"

definition BookTrade ::
  "TradeBookingService \<Rightarrow> Trade \<Rightarrow> TradeBookingService \<times> (listener \<times> Trade) list" where
  "BookTrade svc tradeObj = (svc, notify (tbListeners svc) tradeObj)"

text \<open>
  The listener that turns execution orders into trades. Its \<open>bookingService\<close> pointer is
  the service passed along with it.
\<close>

record TradeBookingServiceListener =
  bookedCount :: int

definition marketBooks :: "string list" where
  "marketBooks = [''TRSY1'', ''TRSY2'', ''TRSY3'']"

text \<open>\<open>v[i]\<close> on a vector: an unchecked read.\<close>

definition vector_at :: "'a list \<Rightarrow> int \<Rightarrow> failure + 'a" where
  "vector_at v i = (if 0 \<le> i \<and> i < int (length v) then Inr (v ! nat i) else Inl UndefinedBehaviour)"

definition TradeBookingServiceListener_ProcessAdd ::
  "TradeBookingServiceListener \<Rightarrow> TradeBookingService \<Rightarrow> ExecutionOrder
   \<Rightarrow> failure + TradeBookingServiceListener \<times> TradeBookingService \<times> (listener \<times> Trade) list" where
  "TradeBookingServiceListener_ProcessAdd lst svc execOrder =
     (let cnt = long_add (bookedCount lst) 1;
          productObj = eoProduct execOrder;
          pSide = eoSide execOrder;
          orderIdStr = orderId execOrder;
          orderPrice' = eoPrice execOrder;
          visibleQty = visibleQuantity execOrder;
          hiddenQty = hiddenQuantity execOrder;
          tradeSide' = (if pSide = BID then SELL else BUY)
      in then_do (vector_at marketBooks (cnt smod 3)) (\<lambda>chosenBook.
           let totalQty = long_add visibleQty hiddenQty;
               generatedTrade = \<lparr>tradeProduct = productObj, tradeId = orderIdStr,
                                 tradePrice = orderPrice', tradeBook = chosenBook,
                                 tradeQuantity = totalQty, tradeSide = tradeSide'\<rparr>;
               (svc1, out1) = TradeBookingService_OnMessage svc generatedTrade;
               (svc2, out2) = BookTrade svc1 generatedTrade
           in Inr (lst\<lparr>bookedCount := cnt\<rparr>, svc2, out1 @ out2)))"

section \<open>positionservice.hpp\<close>

record Position =
  posProduct :: Product
  bookPositions :: "(string \<times> int) list"

definition new_Position :: "Product \<Rightarrow> Position" where
  "new_Position prd = \<lparr>posProduct = prd, bookPositions = []\<rparr>"

definition GetPositions :: "Position \<Rightarrow> (string \<times> int) list" where
  "GetPositions pos = bookPositions pos"

definition Position_AddPosition :: "Position \<Rightarrow> string \<Rightarrow> int \<Rightarrow> Position" where
  "Position_AddPosition pos book' qty =
     pos\<lparr>bookPositions := map_plus_eq book' qty (bookPositions pos)\<rparr>"

text \<open>The loop \<open>for (auto& kv : bookPositions) total += kv.second\<close>.\<close>

definition GetAggregatePosition :: "Position \<Rightarrow> int" where
  "GetAggregatePosition pos = fold (\<lambda>kv total. long_add total (snd kv)) (bookPositions pos) 0"

record PositionService =
  positions :: "string \<rightharpoonup> Position"
  psListeners :: "listener list"

definition new_PositionService :: PositionService where
  "new_PositionService = \<lparr>positions = Map.empty, psListeners = []\<rparr>"

definition PositionService_AddListener :: "PositionService \<Rightarrow> listener \<Rightarrow> PositionService" where
  "PositionService_AddListener svc l = svc\<lparr>psListeners := psListeners svc @ [l]\<rparr>"

text \<open>\<open>positions[key]\<close>, read: a missing key reads as a default-constructed position.\<close>

definition positions_at :: "PositionService \<Rightarrow> string \<Rightarrow> Position" where
  "positions_at svc key =
     (case positions svc key of Some pos \<Rightarrow> pos | None \<Rightarrow> new_Position default_Product)"

definition AddTrade ::
  "PositionService \<Rightarrow> Trade \<Rightarrow> PositionService \<times> (listener \<times> Position) list" where
  "AddTrade svc tradeObj =
     (let prd = tradeProduct tradeObj;
          prodId = productId prd;
          bookName = tradeBook tradeObj;
          tradeQty = tradeQuantity tradeObj;
          side = tradeSide tradeObj;
          newPosition0 = (if side = BUY then Position_AddPosition (new_Position prd) bookName tradeQty
                          else Position_AddPosition (new_Position prd) bookName (long_neg tradeQty));
          oldPosition = positions_at svc prodId;
          oldMap = GetPositions oldPosition;
          newPosition = fold (\<lambda>kv np. Position_AddPosition np (fst kv) (snd kv)) oldMap newPosition0
      in (svc\<lparr>positions := (positions svc)(prodId \<mapsto> newPosition)\<rparr>,
          notify (psListeners svc) newPosition))"

text \<open>
  Trades applied one after the other, as \<open>PositionServiceListener::ProcessAdd\<close> does for
  every trade it receives.
\<close>

fun AddTrades ::
  "PositionService \<Rightarrow> Trade list \<Rightarrow> PositionService \<times> (listener \<times> Position) list" where
  "AddTrades svc [] = (svc, [])"
| "AddTrades svc (t # ts) =
     (let (svc1, out1) = AddTrade svc t;
          (svc2, out2) = AddTrades svc1 ts
      in (svc2, out1 @ out2))"

section \<open>riskservice.hpp\<close>

text \<open>
  The PV01 table. Each value is the double nearest to the decimal literal of the source
  (0.019, 0.028, 0.046, 0.064, 0.091, 0.142, 0.183).
\<close>

definition bondPV01 :: "string \<rightharpoonup> rat" where
  "bondPV01 = map_of
     [(''912828V23'', 5476377146882523 / 2 ^ 58),
      (''912828W22'', 8070450532247929 / 2 ^ 58),
      (''912828X21'', 3314649325744685 / 2 ^ 56),
      (''912828Y20'', 1152921504606847 / 2 ^ 54),
      (''912828Z19'', 3278620528725721 / 2 ^ 55),
      (''912810FZ8'', 5116089176692883 / 2 ^ 55),
      (''912810GZ6'', 3296634927235203 / 2 ^ 54)]"

record 'p PV01 =
  pvProduct :: 'p
  pv01Value :: rat
  pvQuantity :: int

record RiskService =
  pv01s :: "string \<rightharpoonup> Product PV01"
  rsListeners :: "listener list"

definition new_RiskService :: RiskService where
  "new_RiskService = \<lparr>pv01s = Map.empty, rsListeners = []\<rparr>"

definition RiskService_AddListener :: "RiskService \<Rightarrow> listener \<Rightarrow> RiskService" where
  "RiskService_AddListener svc l = svc\<lparr>rsListeners := rsListeners svc @ [l]\<rparr>"

text \<open>
  \<open>AddPosition\<close>. \<open>bondPV01.at(_id)\<close> throws \<open>std::out_of_range\<close> for a product id
  that is not in the table; it is the first statement that can fail and it precedes every
  change of the service, so the service after the exception is the service before the call.
  The result is the service after the call, with either the exception or the deliveries.
\<close>

definition RiskService_AddPosition ::
  "RiskService \<Rightarrow> Position \<Rightarrow> RiskService \<times> (failure + (listener \<times> Product PV01) list)" where
  "RiskService_AddPosition svc position =
     (let product = posProduct position;
          pid = productId product
      in case bondPV01 pid of
           None \<Rightarrow> (svc, Inl OutOfRange)
         | Some pv01Value' \<Rightarrow>
             let quantity = GetAggregatePosition position;
                 pv = \<lparr>pvProduct = product, pv01Value = pv01Value', pvQuantity = quantity\<rparr>
             in (svc\<lparr>pv01s := (pv01s svc)(pid \<mapsto> pv)\<rparr>, Inr (notify (rsListeners svc) pv)))"

text \<open>
  Positions reach the risk service one at a time through
  \<open>RiskServiceListener::ProcessAdd\<close>, called from the listener loop of
  \<open>PositionService::AddTrade\<close>, itself called from the listener loops of the booking
  service and from the read loop of its connector. None of these callers, and no other
  code of the system, has an exception handler: an exception thrown by \<open>AddPosition\<close>
  leaves every enclosing loop, and the positions that would follow are not processed.
\<close>

fun RiskServiceListener_ProcessAdd_each ::
  "RiskService \<Rightarrow> Position list \<Rightarrow> RiskService \<times> (failure + (listener \<times> Product PV01) list)" where
  "RiskServiceListener_ProcessAdd_each svc [] = (svc, Inr [])"
| "RiskServiceListener_ProcessAdd_each svc (p # ps) =
     (case RiskService_AddPosition svc p of
        (svc1, Inl e) \<Rightarrow> (svc1, Inl e)
      | (svc1, Inr out1) \<Rightarrow>
          (case RiskServiceListener_ProcessAdd_each svc1 ps of
             (svc2, Inl e) \<Rightarrow> (svc2, Inl e)
           | (svc2, Inr out2) \<Rightarrow> (svc2, Inr (out1 @ out2))))"

section \<open>inquiryservice.hpp\<close>

datatype InquiryState = RECEIVED | QUOTED | DONE | REJECTED | CUSTOMER_REJECTED

record Inquiry =
  inquiryId :: string
  inqProduct :: Product
  inqSide :: Side
  inqQuantity :: int
  inqPrice :: rat
  inqState :: InquiryState

record InquiryService =
  inquiries :: "string \<rightharpoonup> Inquiry"
  isListeners :: "listener list"

text \<open>
  \<open>InquiryService::OnMessage\<close>, \<open>InquiryConnector::Publish\<close> and the overload of
  \<open>InquiryConnector::Subscribe\<close> for one inquiry call each other. The inquiry is passed
  by reference, so each function returns it next to the service and the deliveries.
  \<open>OnMessage\<close> reads the state once, on entry, into \<open>currentState\<close>.
\<close>

function InquiryService_OnMessage ::
    "InquiryService \<Rightarrow> Inquiry \<Rightarrow> InquiryService \<times> Inquiry \<times> (listener \<times> Inquiry) list"
  and InquiryConnector_Publish ::
    "InquiryService \<Rightarrow> Inquiry \<Rightarrow> InquiryService \<times> Inquiry \<times> (listener \<times> Inquiry) list"
  and InquiryConnector_Subscribe ::
    "InquiryService \<Rightarrow> Inquiry \<Rightarrow> InquiryService \<times> Inquiry \<times> (listener \<times> Inquiry) list"
where
  "InquiryService_OnMessage svc data =
     (let currentState = inqState data;
          (svc1, data1, out1) =
            (if currentState = RECEIVED
             then InquiryConnector_Publish
                    (svc\<lparr>inquiries := (inquiries svc)(inquiryId data \<mapsto> data)\<rparr>) data
             else (svc, data, []))
      in if currentState = QUOTED
         then let data2 = data1\<lparr>inqState := DONE\<rparr>
              in (svc1\<lparr>inquiries := (inquiries svc1)(inquiryId data2 \<mapsto> data2)\<rparr>, data2,
                  out1 @ notify (isListeners svc1) data2)
         else (svc1, data1, out1))"
| "InquiryConnector_Publish svc data =
     (if inqState data = RECEIVED
      then InquiryConnector_Subscribe svc (data\<lparr>inqState := QUOTED\<rparr>)
      else (svc, data, []))"
| "InquiryConnector_Subscribe svc data = InquiryService_OnMessage svc data"
  by pat_completeness auto
termination
  by (relation "measure (\<lambda>x. case x of
          Inl (svc, data) \<Rightarrow> (if inqState data = RECEIVED then 4 else 0) + 1
        | Inr (Inl (svc, data)) \<Rightarrow> (if inqState data = RECEIVED then 4 else 0)
        | Inr (Inr (svc, data)) \<Rightarrow> (if inqState data = RECEIVED then 4 else 0) + 2)")
     auto

declare InquiryService_OnMessage.simps [simp del]
declare InquiryConnector_Publish.simps [simp del]
declare InquiryConnector_Subscribe.simps [simp del]

section \<open>Arithmetic of \<open>long\<close>\<close>

lemma wrap_long_id: "is_long x \<Longrightarrow> wrap_long x = x"
  by (simp add: is_long_def wrap_long_def)

lemma wrap_long_mod: "wrap_long x mod 2 ^ 64 = x mod 2 ^ 64"
proof -
  have "wrap_long x mod 2 ^ 64 = ((x + 2 ^ 63) mod 2 ^ 64 - 2 ^ 63) mod 2 ^ 64"
    by (simp only: wrap_long_def)
  also have "\<dots> = (x + 2 ^ 63 - 2 ^ 63) mod 2 ^ 64"
    by (rule mod_diff_left_eq)
  also have "\<dots> = x mod 2 ^ 64"
    by (simp only: add_diff_cancel_right')
  finally show ?thesis .
qed

lemma wrap_long_cong: "x mod 2 ^ 64 = y mod 2 ^ 64 \<Longrightarrow> wrap_long x = wrap_long y"
proof -
  assume "x mod 2 ^ 64 = y mod 2 ^ 64"
  then have "(x + 2 ^ 63) mod 2 ^ 64 = (y + 2 ^ 63) mod 2 ^ 64"
    by (rule mod_add_cong) (rule refl)
  then show ?thesis by (simp only: wrap_long_def)
qed

lemma wrap_long_add_left: "wrap_long (wrap_long a + b) = wrap_long (a + b)"
  by (rule wrap_long_cong, rule mod_add_cong, rule wrap_long_mod, rule refl)

lemma wrap_long_add_right: "wrap_long (a + wrap_long b) = wrap_long (a + b)"
  by (rule wrap_long_cong, rule mod_add_cong, rule refl, rule wrap_long_mod)

lemma wrap_long_idem: "wrap_long (wrap_long a) = wrap_long a"
  using wrap_long_add_left [of a 0] by simp

lemma wrap_long_0: "wrap_long 0 = 0"
  by (simp add: wrap_long_def)

lemma long_add_in_range: "is_long (a + b) \<Longrightarrow> long_add a b = a + b"
  by (simp add: long_add_def wrap_long_id)

section \<open>Best bid and offer\<close>

lemma best_bid_loop_split:
  "\<exists>pre post. b # xs = pre @ best_bid_loop b xs # post
     \<and> (\<forall>x \<in> set pre. orderPrice x < orderPrice (best_bid_loop b xs))
     \<and> (\<forall>x \<in> set post. orderPrice x \<le> orderPrice (best_bid_loop b xs))"
proof (induction xs arbitrary: b)
  case Nil
  show ?case by (intro exI [of _ "[]"]) simp
next
  case (Cons x xs)
  show ?case
  proof (cases "orderPrice x > orderPrice b")
    case True
    define r where "r = best_bid_loop x xs"
    from Cons.IH [of x] obtain pre post where
      s: "x # xs = pre @ r # post"
      and lt: "\<forall>y \<in> set pre. orderPrice y < orderPrice r"
      and le: "\<forall>y \<in> set post. orderPrice y \<le> orderPrice r"
      unfolding r_def by blast
    have step: "best_bid_loop b (x # xs) = r"
      using True by (simp add: r_def)
    have "orderPrice x \<le> orderPrice r"
      using s lt by (cases pre) auto
    with True have "orderPrice b < orderPrice r" by simp
    with s lt le show ?thesis
      unfolding step by (intro exI [of _ "b # pre"] exI [of _ post]) simp
  next
    case False
    define r where "r = best_bid_loop b xs"
    from Cons.IH [of b] obtain pre post where
      s: "b # xs = pre @ r # post"
      and lt: "\<forall>y \<in> set pre. orderPrice y < orderPrice r"
      and le: "\<forall>y \<in> set post. orderPrice y \<le> orderPrice r"
      unfolding r_def by blast
    have step: "best_bid_loop b (x # xs) = r"
      using False by (simp add: r_def)
    show ?thesis
    proof (cases pre)
      case Nil
      with s have "b = r" and "xs = post" by simp_all
      with le False show ?thesis
        unfolding step by (intro exI [of _ "[]"] exI [of _ "x # post"]) simp
    next
      case (Cons p pre')
      with s have "p = b" and xs: "xs = pre' @ r # post" by simp_all
      with lt Cons have "orderPrice b < orderPrice r" by simp
      with False have "orderPrice x < orderPrice r" by simp
      with xs lt le Cons \<open>p = b\<close> show ?thesis
        unfolding step by (intro exI [of _ "b # x # pre'"] exI [of _ post]) simp
    qed
  qed
qed

lemma best_offer_loop_split:
  "\<exists>pre post. b # xs = pre @ best_offer_loop b xs # post
     \<and> (\<forall>x \<in> set pre. orderPrice (best_offer_loop b xs) < orderPrice x)
     \<and> (\<forall>x \<in> set post. orderPrice (best_offer_loop b xs) \<le> orderPrice x)"
proof (induction xs arbitrary: b)
  case Nil
  show ?case by (intro exI [of _ "[]"]) simp
next
  case (Cons x xs)
  show ?case
  proof (cases "orderPrice x < orderPrice b")
    case True
    define r where "r = best_offer_loop x xs"
    from Cons.IH [of x] obtain pre post where
      s: "x # xs = pre @ r # post"
      and lt: "\<forall>y \<in> set pre. orderPrice r < orderPrice y"
      and le: "\<forall>y \<in> set post. orderPrice r \<le> orderPrice y"
      unfolding r_def by blast
    have step: "best_offer_loop b (x # xs) = r"
      using True by (simp add: r_def)
    have "orderPrice r \<le> orderPrice x"
      using s lt by (cases pre) auto
    with True have "orderPrice r < orderPrice b" by simp
    with s lt le show ?thesis
      unfolding step by (intro exI [of _ "b # pre"] exI [of _ post]) simp
  next
    case False
    define r where "r = best_offer_loop b xs"
    from Cons.IH [of b] obtain pre post where
      s: "b # xs = pre @ r # post"
      and lt: "\<forall>y \<in> set pre. orderPrice r < orderPrice y"
      and le: "\<forall>y \<in> set post. orderPrice r \<le> orderPrice y"
      unfolding r_def by blast
    have step: "best_offer_loop b (x # xs) = r"
      using False by (simp add: r_def)
    show ?thesis
    proof (cases pre)
      case Nil
      with s have "b = r" and "xs = post" by simp_all
      with le False show ?thesis
        unfolding step by (intro exI [of _ "[]"] exI [of _ "x # post"]) simp
    next
      case (Cons p pre')
      with s have "p = b" and xs: "xs = pre' @ r # post" by simp_all
      with lt Cons have "orderPrice r < orderPrice b" by simp
      with False have "orderPrice r < orderPrice x" by simp
      with xs lt le Cons \<open>p = b\<close> show ?thesis
        unfolding step by (intro exI [of _ "b # x # pre'"] exI [of _ post]) simp
    qed
  qed
qed

text \<open>
  C2. For an order book whose bid stack and offer stack are both non-empty, the query
  succeeds; the bid it returns occurs in the bid stack, every bid before it has a strictly
  lower price and every bid after it has a price that is not higher, so it is the first
  bid of maximum price. Symmetrically the offer it returns is the first offer of minimum
  price. \<open>GetBestBidOffer\<close> returns the same pair for the book stored under the product id.
\<close>

theorem GetBidOffer_first_extreme:
  assumes "orderBooks svc pid = Some book"
    and "bidStack book \<noteq> []" and "offerStack book \<noteq> []"
  shows "\<exists>bo bpre bpost opre opost.
           GetBidOffer book = Inr bo \<and> snd (GetBestBidOffer svc pid) = Inr bo
         \<and> bidStack book = bpre @ bidOrder bo # bpost
         \<and> (\<forall>x \<in> set bpre. orderPrice x < orderPrice (bidOrder bo))
         \<and> (\<forall>x \<in> set bpost. orderPrice x \<le> orderPrice (bidOrder bo))
         \<and> offerStack book = opre @ offerOrder bo # opost
         \<and> (\<forall>x \<in> set opre. orderPrice (offerOrder bo) < orderPrice x)
         \<and> (\<forall>x \<in> set opost. orderPrice (offerOrder bo) \<le> orderPrice x)"
proof -
  from assms(2) obtain b0 bs where bids: "bidStack book = b0 # bs"
    by (cases "bidStack book") auto
  from assms(3) obtain o0 os where offers: "offerStack book = o0 # os"
    by (cases "offerStack book") auto
  define bo where "bo = \<lparr>bidOrder = best_bid_loop b0 bs, offerOrder = best_offer_loop o0 os\<rparr>"
  have res: "GetBidOffer book = Inr bo"
    by (simp add: GetBidOffer_def bids offers bo_def)
  have svc: "snd (GetBestBidOffer svc pid) = Inr bo"
    using assms(1) res by (simp add: GetBestBidOffer_def orderBooks_at_def)
  from best_bid_loop_split [of b0 bs] obtain bpre bpost where
    b: "bidStack book = bpre @ bidOrder bo # bpost"
       "\<forall>x \<in> set bpre. orderPrice x < orderPrice (bidOrder bo)"
       "\<forall>x \<in> set bpost. orderPrice x \<le> orderPrice (bidOrder bo)"
    unfolding bids bo_def by auto
  from best_offer_loop_split [of o0 os] obtain opre opost where
    o: "offerStack book = opre @ offerOrder bo # opost"
       "\<forall>x \<in> set opre. orderPrice (offerOrder bo) < orderPrice x"
       "\<forall>x \<in> set opost. orderPrice (offerOrder bo) \<le> orderPrice x"
    unfolding offers bo_def by auto
  from res svc b o show ?thesis by blast
qed

text \<open>
  A book with the bids 99, 100, 100 (quantities 1, 2, 3) and the offers 101, 100.5, 100.5
  (quantities 4, 5, 6): the query returns the bid of quantity 2 and the offer of quantity 5.
\<close>

definition example_book :: OrderBook where
  "example_book =
     \<lparr>bookProduct = \<lparr>productId = ''912828V23''\<rparr>,
      bidStack = [\<lparr>orderPrice = 99, orderQuantity = 1, orderSide = BID\<rparr>,
                  \<lparr>orderPrice = 100, orderQuantity = 2, orderSide = BID\<rparr>,
                  \<lparr>orderPrice = 100, orderQuantity = 3, orderSide = BID\<rparr>],
      offerStack = [\<lparr>orderPrice = 101, orderQuantity = 4, orderSide = OFFER\<rparr>,
                    \<lparr>orderPrice = 201 / 2, orderQuantity = 5, orderSide = OFFER\<rparr>,
                    \<lparr>orderPrice = 201 / 2, orderQuantity = 6, orderSide = OFFER\<rparr>]\<rparr>"

definition example_market :: MarketDataService where
  "example_market =
     \<lparr>orderBooks = [''912828V23'' \<mapsto> example_book], mdListeners = [0], bookDepth = 10\<rparr>"

theorem GetBidOffer_first_extreme_witness:
  "orderBooks example_market ''912828V23'' = Some example_book
   \<and> bidStack example_book \<noteq> [] \<and> offerStack example_book \<noteq> []
   \<and> (\<exists>bo. GetBidOffer example_book = Inr bo
          \<and> snd (GetBestBidOffer example_market ''912828V23'') = Inr bo
          \<and> orderQuantity (bidOrder bo) = 2 \<and> orderQuantity (offerOrder bo) = 5)"
proof -
  have h1: "orderBooks example_market ''912828V23'' = Some example_book"
    by (simp add: example_market_def)
  have h2: "bidStack example_book \<noteq> []" and h3: "offerStack example_book \<noteq> []"
    by (simp_all add: example_book_def)
  from GetBidOffer_first_extreme [OF h1 h2 h3] obtain bo where
    r: "GetBidOffer example_book = Inr bo"
       "snd (GetBestBidOffer example_market ''912828V23'') = Inr bo"
    by blast
  from r(1) have "orderQuantity (bidOrder bo) = 2 \<and> orderQuantity (offerOrder bo) = 5"
    by (auto simp: GetBidOffer_def example_book_def)
  with h1 h2 h3 r show ?thesis by blast
qed

text \<open>
  C3, as stated. The claim is that the query on a book with an empty side fails with an
  error that is raised. On the book with no orders at all the code reads element 0 of an
  empty vector: no exception is thrown.
\<close>

theorem GetBidOffer_empty_not_thrown:
  "GetBidOffer \<lparr>bookProduct = \<lparr>productId = ''912828V23''\<rparr>, bidStack = [], offerStack = []\<rparr>
     = Inl UndefinedBehaviour
   \<and> \<not> thrown UndefinedBehaviour"
  by (simp add: GetBidOffer_def)

text \<open>
  C3, amended. The query has no emptiness check: on every book with an empty bid stack or
  an empty offer stack it performs an unchecked read of element 0, which is undefined
  behaviour and raises nothing; it returns no value of the model. The same holds for
  \<open>GetBestBidOffer\<close> on a product id with no stored book, for which a default book with
  two empty stacks is created.
\<close>

theorem GetBidOffer_empty_undefined:
  "(bidStack book = [] \<or> offerStack book = [] \<longrightarrow> GetBidOffer book = Inl UndefinedBehaviour)
   \<and> (orderBooks svc pid = None \<longrightarrow>
        snd (GetBestBidOffer svc pid) = Inl UndefinedBehaviour)"
  by (auto simp: GetBidOffer_def GetBestBidOffer_def orderBooks_at_def default_OrderBook_def
           split: list.splits)

theorem GetBidOffer_empty_undefined_witness:
  "(bidStack (example_book\<lparr>offerStack := []\<rparr>) = [] \<or> offerStack (example_book\<lparr>offerStack := []\<rparr>) = [])
   \<and> GetBidOffer (example_book\<lparr>offerStack := []\<rparr>) = Inl UndefinedBehaviour
   \<and> orderBooks example_market ''912828W22'' = None
   \<and> snd (GetBestBidOffer example_market ''912828W22'') = Inl UndefinedBehaviour"
  using GetBidOffer_empty_undefined [of "example_book\<lparr>offerStack := []\<rparr>" example_market "''912828W22''"]
  by (simp add: example_market_def)

section \<open>Round trip of the fractional price notation\<close>

text \<open>
  The strings the claim is about, following the spec's words: a non-negative integer
  \<open>B\<close> in decimal notation, a dash, the 32nds \<open>XY\<close> as two digits, and a last
  character \<open>z\<close>.
\<close>

definition fractional_form :: "nat \<Rightarrow> nat \<Rightarrow> char \<Rightarrow> string" where
  "fractional_form B xy zc =
     to_string_nat B @ ''-'' @ [digit_char (xy div 10), digit_char (xy mod 10)] @ [zc]"

lemma of_char_digit_char: "d < 10 \<Longrightarrow> (of_char (digit_char d) :: nat) = 48 + d"
  by (simp add: digit_char_def)

lemma of_char_digit_char_int: "d < 10 \<Longrightarrow> (of_char (digit_char d) :: int) = 48 + int d"
proof -
  assume "d < 10"
  then have "(of_char (digit_char d) :: nat) = 48 + d" by (rule of_char_digit_char)
  then have "int (of_char (digit_char d)) = int (48 + d)" by simp
  then show ?thesis by (simp add: of_nat_of_char)
qed

lemma isdigit_digit_char: "d < 10 \<Longrightarrow> isdigit (digit_char d)"
  by (simp add: isdigit_def of_char_digit_char)

lemma digit_char_not_dash: "d < 10 \<Longrightarrow> digit_char d \<noteq> CHR ''-''"
proof
  assume d: "d < 10" and "digit_char d = CHR ''-''"
  then have "(of_char (digit_char d) :: nat) = of_char CHR ''-''" by simp
  with d show False by (simp add: of_char_digit_char)
qed

lemma digit_char_not_plus: "d < 10 \<Longrightarrow> digit_char d \<noteq> CHR ''+''"
proof
  assume d: "d < 10" and "digit_char d = CHR ''+''"
  then have "(of_char (digit_char d) :: nat) = of_char CHR ''+''" by simp
  with d show False by (simp add: of_char_digit_char)
qed

lemma to_string_nat_digits: "list_all isdigit (to_string_nat n) \<and> to_string_nat n \<noteq> []"
  by (induction n rule: to_string_nat.induct)
     (subst (1 2) to_string_nat.simps, simp add: isdigit_digit_char)

lemma digits_value_snoc:
  "digits_value acc (cs @ [c]) = 10 * digits_value acc cs + (of_char c - 48)"
  by (induction cs arbitrary: acc) simp_all

lemma digits_value_to_string_nat: "digits_value 0 (to_string_nat n) = int n"
proof (induction n rule: to_string_nat.induct)
  case (1 n)
  show ?case
  proof (cases "n < 10")
    case True
    then show ?thesis
      by (subst to_string_nat.simps) (simp add: of_char_digit_char_int)
  next
    case False
    with 1 have "digits_value 0 (to_string_nat (n div 10)) = int (n div 10)" by simp
    with False show ?thesis
      by (subst to_string_nat.simps)
         (simp add: digits_value_snoc of_char_digit_char_int zdiv_int zmod_int)
  qed
qed

lemma dash_notin_to_string_nat: "CHR ''-'' \<notin> set (to_string_nat n)"
proof -
  have "\<not> isdigit CHR ''-''" by (simp add: isdigit_def)
  with to_string_nat_digits [of n] show ?thesis
    by (auto simp: list_all_iff)
qed

lemma takeWhile_until: "x \<notin> set ds \<Longrightarrow> takeWhile (\<lambda>c. c \<noteq> x) (ds @ x # rest) = ds"
  by (induction ds) auto

lemma find_dash_append:
  "CHR ''-'' \<notin> set ds \<Longrightarrow> find_dash (ds @ CHR ''-'' # rest) = Some (length ds)"
  by (simp add: find_dash_def takeWhile_until Let_def)

lemma stoi_two_digits:
  "a < 10 \<Longrightarrow> b < 10 \<Longrightarrow> stoi [digit_char a, digit_char b] = Inr (int (10 * a + b))"
  by (simp add: stoi_def Let_def isspace_def isdigit_digit_char digit_char_not_dash
        digit_char_not_plus of_char_digit_char of_char_digit_char_int)

lemma digit_char_0: "digit_char 0 = CHR ''0''"
  unfolding digit_char_def
  by (rule of_char_eqI [where ?'a = nat]) simp

lemma char_of_int_digit: "char_of (48 + int d) = digit_char d"
proof -
  have "char_of (48 + int d) = char_of (int (48 + d))" by simp
  also have "\<dots> = char_of (48 + d)" by (rule char_of_nat)
  finally show ?thesis by (simp add: digit_char_def)
qed

lemma to_string_nat_one: "n < 10 \<Longrightarrow> to_string_nat n = [digit_char n]"
  by (subst to_string_nat.simps) simp

lemma to_string_nat_two:
  "10 \<le> n \<Longrightarrow> n < 100 \<Longrightarrow> to_string_nat n = [digit_char (n div 10), digit_char (n mod 10)]"
  by (subst to_string_nat.simps) (simp add: to_string_nat_one)

lemma two_digits_padded:
  "n < 100 \<Longrightarrow> (if int n < 10 then ''0'' else []) @ to_string (int n)
     = [digit_char (n div 10), digit_char (n mod 10)]"
  by (cases "n < 10") (simp_all add: to_string_def to_string_nat_one to_string_nat_two digit_char_0)

lemma price2string_dyadic:
  assumes "B < 2 ^ 31" "xy \<le> 31" "z \<le> 7"
  shows "price2string (of_int (int B) + of_int (int xy) / 32 + of_int (int z) / 256)
         = Inr (to_string_nat B @ ''-'' @ [digit_char (xy div 10), digit_char (xy mod 10)]
                @ [if z = 4 then CHR ''+'' else digit_char z])"
proof -
  let ?d = "of_int (int B) + of_int (int xy) / 32 + of_int (int z) / 256 :: rat"
  let ?fp = "of_int (int xy) / 32 + of_int (int z) / 256 :: rat"
  have fp: "0 \<le> ?fp" "?fp < 1" using assms by simp_all
  have fl: "\<lfloor>?d\<rfloor> = int B"
    using fp by (intro floor_unique) (simp_all add: add.assoc)
  have t1: "trunc_toward_zero ?d = int B"
    using fp fl by (simp add: trunc_toward_zero_def add.assoc)
  have c1: "static_cast_int ?d = Inr (int B)"
    using assms(1) by (simp only: static_cast_int_def t1) simp
  have fp32: "(?d - of_int (int B)) * 32 = of_int (int xy) + of_int (int z) / 8" by simp
  have "\<lfloor>of_int (int xy) + of_int (int z) / 8 :: rat\<rfloor> = int xy"
    using assms by (intro floor_unique) simp_all
  then have t2: "trunc_toward_zero ((?d - of_int (int B)) * 32) = int xy"
    unfolding fp32 by (simp add: trunc_toward_zero_def)
  have c2: "static_cast_int ((?d - of_int (int B)) * 32) = Inr (int xy)"
    using assms(2) by (simp only: static_cast_int_def t2) simp
  have fp256: "(?d - of_int (int B)) * 256 = of_int (8 * int xy + int z)" by simp
  have t3: "trunc_toward_zero ((?d - of_int (int B)) * 256) = 8 * int xy + int z"
  proof -
    have "\<not> (of_int (8 * int xy + int z) :: rat) < 0"
      by (simp only: of_int_less_0_iff)
    then show ?thesis
      unfolding fp256 trunc_toward_zero_def by (simp only: if_False floor_of_int)
  qed
  have c3: "static_cast_int ((?d - of_int (int B)) * 256) = Inr (8 * int xy + int z)"
    using assms(2,3) by (simp only: static_cast_int_def t3) simp
  have sm: "(8 * int xy + int z) smod 8 = int z"
    using assms(3) by (simp add: signed_modulo_int_def sgn_if)
  have xs: "(if int xy < 10 then ''0'' else []) @ to_string (int xy)
            = [digit_char (xy div 10), digit_char (xy mod 10)]"
    using assms(2) by (intro two_digits_padded) simp
  have zc: "(if int z = 4 then CHR ''+'' else char_of (48 + int z))
            = (if z = 4 then CHR ''+'' else digit_char z)"
    by (simp add: char_of_int_digit)
  show ?thesis
    unfolding price2string_def
    apply (simp only: c1 then_do_def sum.case Let_def c2 c3 sm zc)
    using xs by (simp add: to_string_def)
qed


lemma digit_char_of_char: "isdigit c \<Longrightarrow> digit_char (of_char c - 48) = c"
  unfolding digit_char_def isdigit_def
  by (rule of_char_eqI [where ?'a = nat]) simp

lemma string2price_fractional_form:
  assumes "B < 2 ^ 31" "xy \<le> 31"
    and "zc = CHR ''+'' \<and> z = 4 \<or> isdigit zc \<and> z = of_char zc - 48 \<and> z \<le> 7"
  shows "string2price (fractional_form B xy zc)
         = Inr (of_int (int B) + of_int (int xy) / 32 + of_int (int z) / 256)"
proof -
  let ?bs = "to_string_nat B"
  let ?s = "fractional_form B xy zc"
  have s: "?s = ?bs @ CHR ''-'' # [digit_char (xy div 10), digit_char (xy mod 10), zc]"
    by (simp add: fractional_form_def)
  have dash: "find_dash ?s = Some (length ?bs)"
    unfolding s by (rule find_dash_append) (rule dash_notin_to_string_nat)
  have base: "substr ?s 0 (length ?bs) = ?bs"
    by (simp add: substr_def s)
  have "stod ?bs = Inr (of_int (int B))"
    using to_string_nat_digits [of B] assms(1)
    by (simp add: stod_def digits_value_to_string_nat)
  with base have c1: "stod (substr ?s 0 (length ?bs)) = Inr (of_int (int B))" by simp
  have frac: "substr ?s (length ?bs + 1) 2 = [digit_char (xy div 10), digit_char (xy mod 10)]"
    by (simp add: substr_def s)
  have "stoi [digit_char (xy div 10), digit_char (xy mod 10)] = Inr (int (10 * (xy div 10) + xy mod 10))"
    using assms(2) by (intro stoi_two_digits) simp_all
  with frac have c2: "stoi (substr ?s (length ?bs + 1) 2) = Inr (int xy)" by simp
  have c3: "string_at ?s (length ?bs + 3) = Inr zc"
    by (simp add: string_at_def s nth_append)
  have zv: "(if zc = CHR ''+'' then 4 else int (of_char zc) - 48) = int z"
    using assms(3) by (auto simp: isdigit_def)
  have rng: "\<not> (int xy < 0 \<or> int xy > 31 \<or> int z < 0 \<or> int z > 7)"
    using assms(2,3) by auto
  show ?thesis
    unfolding string2price_def
    by (simp only: dash option.case c1 c2 c3 then_do_def sum.case zv Let_def rng if_False)
qed

text \<open>
  C5, as stated. The claim allows the last character \<open>4\<close> and every non-negative
  integer part. The encoder writes the value 4 as \<open>+\<close>, so \<open>99-164\<close> comes back as
  \<open>99-16+\<close>; it converts the price to a 32-bit \<open>int\<close>, so for the integer part
  \<open>2147483648\<close> the conversion is undefined and no string is defined; and it writes the
  integer part without leading zeros.
\<close>

theorem price_roundtrip_fails:
  "then_do (string2price ''99-164'') price2string = Inr ''99-16+''
   \<and> then_do (string2price ''2147483648-000'') price2string = Inl UndefinedBehaviour
   \<and> then_do (string2price ''007-000'') price2string = Inr ''7-000''"
  by code_simp

text \<open>
  C5, amended. For every integer part \<open>B\<close> below \<open>2 ^ 31\<close> written in decimal without
  leading zeros, every \<open>XY\<close> from 0 to 31 written as two digits and every last character
  among \<open>0 1 2 3 5 6 7 +\<close>, decoding with \<open>string2price\<close> succeeds and encoding the
  result with \<open>price2string\<close> gives the original string.
\<close>

theorem price_roundtrip:
  assumes "B < 2 ^ 31" and "xy \<le> 31" and "zc \<in> set ''0123567+''"
  shows "then_do (string2price (fractional_form B xy zc)) price2string
         = Inr (fractional_form B xy zc)"
proof -
  define z :: nat where "z = (if zc = CHR ''+'' then 4 else of_char zc - 48)"
  from assms(3) have zc: "zc = CHR ''+'' \<and> z = 4 \<or> isdigit zc \<and> z = of_char zc - 48 \<and> z \<le> 7"
    by (auto simp: z_def isdigit_def)
  from assms(3) have z4: "z = 4 \<longleftrightarrow> zc = CHR ''+''"
    by (auto simp: z_def)
  from zc have z7: "z \<le> 7" by auto
  have zchar: "(if z = 4 then CHR ''+'' else digit_char z) = zc"
    using zc z4 by (auto simp: digit_char_of_char)
  have "then_do (string2price (fractional_form B xy zc)) price2string
        = price2string (of_int (int B) + of_int (int xy) / 32 + of_int (int z) / 256)"
    by (simp add: string2price_fractional_form [OF assms(1,2) zc] then_do_def)
  also have "\<dots> = Inr (to_string_nat B @ ''-'' @ [digit_char (xy div 10), digit_char (xy mod 10)]
                @ [if z = 4 then CHR ''+'' else digit_char z])"
    by (rule price2string_dyadic [OF assms(1,2) z7])
  also have "\<dots> = Inr (fractional_form B xy zc)"
    by (simp only: zchar fractional_form_def)
  finally show ?thesis .
qed

theorem price_roundtrip_witness:
  "(99::nat) < 2 ^ 31 \<and> (16::nat) \<le> 31 \<and> CHR ''+'' \<in> set ''0123567+''
   \<and> fractional_form 99 16 CHR ''+'' = ''99-16+''
   \<and> then_do (string2price ''99-16+'') price2string = Inr ''99-16+''"
proof -
  have f: "fractional_form 99 16 CHR ''+'' = ''99-16+''"
    by code_simp
  have m: "CHR ''+'' \<in> set ''0123567+''" by simp
  from price_roundtrip [of 99 16 "CHR ''+''"] m f show ?thesis by simp
qed

section \<open>Algorithmic execution\<close>

lemma trunc_toward_zero_of_int: "trunc_toward_zero (of_int q) = q"
  by (simp add: trunc_toward_zero_def)

lemma small_is_long: "\<bar>q\<bar> \<le> 2 ^ 53 \<Longrightarrow> is_long q"
  by (simp add: is_long_def abs_le_iff)

lemma long_via_double: "\<bar>q\<bar> \<le> 2 ^ 53 \<Longrightarrow>
    then_do (double_of_long q) static_cast_long = Inr q"
  by (simp add: double_of_long_def static_cast_long_def then_do_def trunc_toward_zero_of_int
        small_is_long)

lemma new_AlgoExecution_exact:
  assumes "\<bar>q\<bar> \<le> 2 ^ 53"
  shows "new_AlgoExecution prd ps oid ot pr q 0 parentOid childFlag
         = Inr \<lparr>executionOrder =
              \<lparr>eoProduct = prd, eoSide = ps, orderId = oid, orderType = ot, eoPrice = pr,
               visibleQuantity = q, hiddenQuantity = 0,
               parentOrderId = parentOid, isChildOrder = childFlag\<rparr>\<rparr>"
proof -
  have "is_long q" using assms by (rule small_is_long)
  moreover have "is_long 0" by (simp add: is_long_def)
  moreover have "trunc_toward_zero 0 = 0" by (simp add: trunc_toward_zero_def)
  ultimately show ?thesis
    using assms
    by (simp add: new_AlgoExecution_def new_ExecutionOrder_def double_of_long_def
          static_cast_long_def then_do_def trunc_toward_zero_of_int)
qed

lemma smod_2_nonneg: "0 \<le> (n::int) \<Longrightarrow> (n smod 2 = 1) = odd n"
  by (auto simp: signed_modulo_int_def sgn_if odd_iff_mod_2_eq_one)

text \<open>
  A service with one listener and its counter at 0; a snapshot with the spread \<open>1/128\<close>
  and one with the spread \<open>1/64\<close>; and the execution that the first narrow snapshot
  produces.
\<close>

definition example_algo :: AlgoExecutionService where
  "example_algo = \<lparr>algoExecutions = Map.empty, aeListeners = [7], executionCount = 0\<rparr>"

definition narrow_book :: OrderBook where
  "narrow_book =
     \<lparr>bookProduct = \<lparr>productId = ''912828V23''\<rparr>,
      bidStack = [\<lparr>orderPrice = 100, orderQuantity = 1000000, orderSide = BID\<rparr>],
      offerStack = [\<lparr>orderPrice = 12801 / 128, orderQuantity = 2000000, orderSide = OFFER\<rparr>]\<rparr>"

definition wide_book :: OrderBook where
  "wide_book =
     \<lparr>bookProduct = \<lparr>productId = ''912828V23''\<rparr>,
      bidStack = [\<lparr>orderPrice = 100, orderQuantity = 1000000, orderSide = BID\<rparr>],
      offerStack = [\<lparr>orderPrice = 6401 / 64, orderQuantity = 2000000, orderSide = OFFER\<rparr>]\<rparr>"

definition first_execution :: AlgoExecution where
  "first_execution =
     \<lparr>executionOrder =
        \<lparr>eoProduct = \<lparr>productId = ''912828V23''\<rparr>, eoSide = OFFER, orderId = ''AlgoExec1'',
         orderType = MARKET, eoPrice = 12801 / 128, visibleQuantity = 2000000,
         hiddenQuantity = 0, parentOrderId = ''PARENT_ORDER_ID'', isChildOrder = False\<rparr>\<rparr>"

lemma GetBidOffer_narrow_book:
  "GetBidOffer narrow_book
   = Inr \<lparr>bidOrder = \<lparr>orderPrice = 100, orderQuantity = 1000000, orderSide = BID\<rparr>,
          offerOrder = \<lparr>orderPrice = 12801 / 128, orderQuantity = 2000000, orderSide = OFFER\<rparr>\<rparr>"
  by (simp add: GetBidOffer_def narrow_book_def)

lemma GetBidOffer_wide_book:
  "GetBidOffer wide_book
   = Inr \<lparr>bidOrder = \<lparr>orderPrice = 100, orderQuantity = 1000000, orderSide = BID\<rparr>,
          offerOrder = \<lparr>orderPrice = 6401 / 64, orderQuantity = 2000000, orderSide = OFFER\<rparr>\<rparr>"
  by (simp add: GetBidOffer_def wide_book_def)

lemma example_book_product:
  "bookProduct narrow_book = \<lparr>productId = ''912828V23''\<rparr>"
  "bookProduct wide_book = \<lparr>productId = ''912828V23''\<rparr>"
  by (simp_all add: narrow_book_def wide_book_def)

lemma example_prices_on_grid:
  "on_price_grid 100" "on_price_grid (12801 / 128)" "on_price_grid (6401 / 64)"
  by (simp_all add: on_price_grid_def)

lemma to_string_small: "to_string 1 = ''1''" "to_string 2 = ''2''"
  by code_simp+

text \<open>
  C1, as stated. The claim speaks of one counter value that decides the side (odd for the
  bid) and is written into the order id, and of a counter that advances by one at every
  emission. On the first narrow snapshot the counter goes from 0 to 1 and the order
  \<open>AlgoExec1\<close> trades the offer: the side follows the even value before the increment,
  the id carries the odd value after it. And from the largest \<open>long\<close> the counter goes
  to \<open>- 2 ^ 63\<close>.
\<close>

theorem AlgoExec1_trades_the_offer:
  "executionCount example_algo = 0
   \<and> AlgoExecutionTrade example_algo narrow_book
       = Inr (example_algo\<lparr>executionCount := 1,
                           algoExecutions := [''912828V23'' \<mapsto> first_execution]\<rparr>,
              [(7, first_execution)])
   \<and> orderId (executionOrder first_execution) = ''AlgoExec1''
   \<and> eoSide (executionOrder first_execution) = OFFER
   \<and> executionCount (fst (projr (AlgoExecutionTrade
         (example_algo\<lparr>executionCount := 9223372036854775807\<rparr>) narrow_book)))
       = - 9223372036854775808"
proof -
  have q: "\<bar>2000000 :: int\<bar> \<le> 2 ^ 53" "\<bar>1000000 :: int\<bar> \<le> 2 ^ 53" by simp_all
  have one: "long_add 0 1 = 1" by (simp add: long_add_def wrap_long_def)
  have top: "long_add 9223372036854775807 1 = - 9223372036854775808"
    by (simp add: long_add_def wrap_long_def)
  have first: "AlgoExecutionTrade example_algo narrow_book
       = Inr (example_algo\<lparr>executionCount := 1,
                           algoExecutions := [''912828V23'' \<mapsto> first_execution]\<rparr>,
              [(7, first_execution)])"
    by (simp add: AlgoExecutionTrade_def GetBidOffer_narrow_book then_do_def Let_def
          double_minus_def example_prices_on_grid example_algo_def one to_string_small
          new_AlgoExecution_exact [OF q(1)] notify_def first_execution_def
          example_book_product signed_modulo_int_def)
  have last: "executionCount (fst (projr (AlgoExecutionTrade
         (example_algo\<lparr>executionCount := 9223372036854775807\<rparr>) narrow_book)))
       = - 9223372036854775808"
    by (simp add: AlgoExecutionTrade_def GetBidOffer_narrow_book then_do_def Let_def
          double_minus_def example_prices_on_grid example_algo_def top
          new_AlgoExecution_exact [OF q(2)] signed_modulo_int_def)
  from first last show ?thesis
    by (simp add: example_algo_def first_execution_def)
qed

text \<open>
  C1, amended. Let the best bid and offer of the snapshot exist, with prices that are
  multiples of \<open>1/256\<close> of magnitude at most \<open>2 ^ 44\<close> and quantities of magnitude at
  most \<open>2 ^ 53\<close>, on which the double arithmetic of the code is exact, and let the
  execution counter be non-negative and below the largest \<open>long\<close>. If the best offer
  price minus the best bid price is at most \<open>1/128\<close>, one execution is delivered to every
  registered listener, the counter advances by one, the execution is stored under the
  product id, and the order trades the best bid (its price and quantity) when the counter
  was odd before the call and the best offer when it was even; its id is \<open>AlgoExec\<close>
  followed by the counter after the increment, its type is \<open>MARKET\<close>, its hidden
  quantity 0, its parent id the fixed sentinel and it is no child order. If the spread
  exceeds \<open>1/128\<close>, nothing is delivered and the service is unchanged.
\<close>

theorem AlgoExecutionTrade_spread_filter:
  assumes "GetBidOffer orderBookObj = Inr bo"
    and "on_price_grid (orderPrice (bidOrder bo))" and "on_price_grid (orderPrice (offerOrder bo))"
    and "\<bar>orderQuantity (bidOrder bo)\<bar> \<le> 2 ^ 53" and "\<bar>orderQuantity (offerOrder bo)\<bar> \<le> 2 ^ 53"
    and "0 \<le> executionCount svc" and "executionCount svc < 2 ^ 63 - 1"
  shows "(orderPrice (offerOrder bo) - orderPrice (bidOrder bo) \<le> 1 / 128 \<longrightarrow>
            (\<exists>svc' eo.
               AlgoExecutionTrade svc orderBookObj
                 = Inr (svc', map (\<lambda>l. (l, \<lparr>executionOrder = eo\<rparr>)) (aeListeners svc))
             \<and> executionCount svc' = executionCount svc + 1
             \<and> aeListeners svc' = aeListeners svc
             \<and> algoExecutions svc' (productId (bookProduct orderBookObj))
                 = Some \<lparr>executionOrder = eo\<rparr>
             \<and> (odd (executionCount svc) \<longrightarrow>
                   eoSide eo = BID \<and> eoPrice eo = orderPrice (bidOrder bo)
                   \<and> visibleQuantity eo = orderQuantity (bidOrder bo))
             \<and> (even (executionCount svc) \<longrightarrow>
                   eoSide eo = OFFER \<and> eoPrice eo = orderPrice (offerOrder bo)
                   \<and> visibleQuantity eo = orderQuantity (offerOrder bo))
             \<and> orderId eo = ''AlgoExec'' @ to_string (executionCount svc + 1)
             \<and> orderType eo = MARKET \<and> hiddenQuantity eo = 0
             \<and> parentOrderId eo = ''PARENT_ORDER_ID'' \<and> \<not> isChildOrder eo
             \<and> eoProduct eo = bookProduct orderBookObj))
       \<and> (orderPrice (offerOrder bo) - orderPrice (bidOrder bo) > 1 / 128 \<longrightarrow>
            AlgoExecutionTrade svc orderBookObj = Inr (svc, []))"
proof (intro conjI impI)
  have spread: "double_minus (orderPrice (offerOrder bo)) (orderPrice (bidOrder bo))
                = Inr (orderPrice (offerOrder bo) - orderPrice (bidOrder bo))"
    using assms(2,3) by (simp add: double_minus_def)
  have cnt: "long_add (executionCount svc) 1 = executionCount svc + 1"
    using assms(6,7) by (intro long_add_in_range) (simp add: is_long_def)
  {
    assume narrow: "orderPrice (offerOrder bo) - orderPrice (bidOrder bo) \<le> 1 / 128"
    show "\<exists>svc' eo.
               AlgoExecutionTrade svc orderBookObj
                 = Inr (svc', map (\<lambda>l. (l, \<lparr>executionOrder = eo\<rparr>)) (aeListeners svc))
             \<and> executionCount svc' = executionCount svc + 1
             \<and> aeListeners svc' = aeListeners svc
             \<and> algoExecutions svc' (productId (bookProduct orderBookObj))
                 = Some \<lparr>executionOrder = eo\<rparr>
             \<and> (odd (executionCount svc) \<longrightarrow>
                   eoSide eo = BID \<and> eoPrice eo = orderPrice (bidOrder bo)
                   \<and> visibleQuantity eo = orderQuantity (bidOrder bo))
             \<and> (even (executionCount svc) \<longrightarrow>
                   eoSide eo = OFFER \<and> eoPrice eo = orderPrice (offerOrder bo)
                   \<and> visibleQuantity eo = orderQuantity (offerOrder bo))
             \<and> orderId eo = ''AlgoExec'' @ to_string (executionCount svc + 1)
             \<and> orderType eo = MARKET \<and> hiddenQuantity eo = 0
             \<and> parentOrderId eo = ''PARENT_ORDER_ID'' \<and> \<not> isChildOrder eo
             \<and> eoProduct eo = bookProduct orderBookObj"
    proof (cases "odd (executionCount svc)")
      case True
      with assms(1,6) narrow show ?thesis
        by (simp add: AlgoExecutionTrade_def then_do_def Let_def smod_2_nonneg notify_def
              spread cnt new_AlgoExecution_exact [OF assms(4)])
    next
      case False
      with assms(1,6) narrow show ?thesis
        by (simp add: AlgoExecutionTrade_def then_do_def Let_def smod_2_nonneg notify_def
              spread cnt new_AlgoExecution_exact [OF assms(5)])
    qed
  }
  {
    assume "orderPrice (offerOrder bo) - orderPrice (bidOrder bo) > 1 / 128"
    with assms(1) show "AlgoExecutionTrade svc orderBookObj = Inr (svc, [])"
      by (simp add: AlgoExecutionTrade_def then_do_def Let_def spread)
  }
qed


text \<open>
  The first narrow snapshot trades the offer as \<open>AlgoExec1\<close>, the next one the bid as
  \<open>AlgoExec2\<close>, and a wide snapshot changes nothing.
\<close>

theorem AlgoExecutionTrade_spread_filter_witness:
  "on_price_grid 100 \<and> on_price_grid (12801 / 128) \<and> on_price_grid (6401 / 64)
   \<and> (0::int) \<le> executionCount example_algo \<and> executionCount example_algo < 2 ^ 63 - 1
   \<and> (\<exists>svc' eo. AlgoExecutionTrade example_algo narrow_book = Inr (svc', [(7, \<lparr>executionOrder = eo\<rparr>)])
         \<and> executionCount svc' = 1 \<and> eoSide eo = OFFER \<and> eoPrice eo = 12801 / 128
         \<and> visibleQuantity eo = 2000000 \<and> orderId eo = ''AlgoExec1'')
   \<and> (\<exists>svc' eo. AlgoExecutionTrade (example_algo\<lparr>executionCount := 1\<rparr>) narrow_book
                   = Inr (svc', [(7, \<lparr>executionOrder = eo\<rparr>)])
         \<and> executionCount svc' = 2 \<and> eoSide eo = BID \<and> eoPrice eo = 100
         \<and> visibleQuantity eo = 1000000 \<and> orderId eo = ''AlgoExec2'')
   \<and> AlgoExecutionTrade example_algo wide_book = Inr (example_algo, [])"
proof -
  have c: "0 \<le> executionCount example_algo" "executionCount example_algo < 2 ^ 63 - 1"
    by (simp_all add: example_algo_def)
  have c1: "0 \<le> executionCount (example_algo\<lparr>executionCount := 1\<rparr>)"
    "executionCount (example_algo\<lparr>executionCount := 1\<rparr>) < 2 ^ 63 - 1" by simp_all
  have g: "on_price_grid (orderPrice (bidOrder
            \<lparr>bidOrder = \<lparr>orderPrice = 100, orderQuantity = 1000000, orderSide = BID\<rparr>,
             offerOrder = \<lparr>orderPrice = 12801 / 128, orderQuantity = 2000000, orderSide = OFFER\<rparr>\<rparr>))"
    "on_price_grid (orderPrice (offerOrder
            \<lparr>bidOrder = \<lparr>orderPrice = 100, orderQuantity = 1000000, orderSide = BID\<rparr>,
             offerOrder = \<lparr>orderPrice = 12801 / 128, orderQuantity = 2000000, orderSide = OFFER\<rparr>\<rparr>))"
    "\<bar>orderQuantity (bidOrder
            \<lparr>bidOrder = \<lparr>orderPrice = 100, orderQuantity = 1000000, orderSide = BID\<rparr>,
             offerOrder = \<lparr>orderPrice = 12801 / 128, orderQuantity = 2000000, orderSide = OFFER\<rparr>\<rparr>)\<bar> \<le> 2 ^ 53"
    "\<bar>orderQuantity (offerOrder
            \<lparr>bidOrder = \<lparr>orderPrice = 100, orderQuantity = 1000000, orderSide = BID\<rparr>,
             offerOrder = \<lparr>orderPrice = 12801 / 128, orderQuantity = 2000000, orderSide = OFFER\<rparr>\<rparr>)\<bar> \<le> 2 ^ 53"
    by (simp_all add: example_prices_on_grid)
  have w: "on_price_grid (orderPrice (bidOrder
            \<lparr>bidOrder = \<lparr>orderPrice = 100, orderQuantity = 1000000, orderSide = BID\<rparr>,
             offerOrder = \<lparr>orderPrice = 6401 / 64, orderQuantity = 2000000, orderSide = OFFER\<rparr>\<rparr>))"
    "on_price_grid (orderPrice (offerOrder
            \<lparr>bidOrder = \<lparr>orderPrice = 100, orderQuantity = 1000000, orderSide = BID\<rparr>,
             offerOrder = \<lparr>orderPrice = 6401 / 64, orderQuantity = 2000000, orderSide = OFFER\<rparr>\<rparr>))"
    "\<bar>orderQuantity (bidOrder
            \<lparr>bidOrder = \<lparr>orderPrice = 100, orderQuantity = 1000000, orderSide = BID\<rparr>,
             offerOrder = \<lparr>orderPrice = 6401 / 64, orderQuantity = 2000000, orderSide = OFFER\<rparr>\<rparr>)\<bar> \<le> 2 ^ 53"
    "\<bar>orderQuantity (offerOrder
            \<lparr>bidOrder = \<lparr>orderPrice = 100, orderQuantity = 1000000, orderSide = BID\<rparr>,
             offerOrder = \<lparr>orderPrice = 6401 / 64, orderQuantity = 2000000, orderSide = OFFER\<rparr>\<rparr>)\<bar> \<le> 2 ^ 53"
    by (simp_all add: example_prices_on_grid)
  from AlgoExecutionTrade_spread_filter [OF GetBidOffer_narrow_book g c] to_string_small
  have first: "\<exists>svc' eo. AlgoExecutionTrade example_algo narrow_book = Inr (svc', [(7, \<lparr>executionOrder = eo\<rparr>)])
         \<and> executionCount svc' = 1 \<and> eoSide eo = OFFER \<and> eoPrice eo = 12801 / 128
         \<and> visibleQuantity eo = 2000000 \<and> orderId eo = ''AlgoExec1''"
    by (auto simp: example_algo_def)
  from AlgoExecutionTrade_spread_filter [OF GetBidOffer_narrow_book g c1] to_string_small
  have second: "\<exists>svc' eo. AlgoExecutionTrade (example_algo\<lparr>executionCount := 1\<rparr>) narrow_book
                   = Inr (svc', [(7, \<lparr>executionOrder = eo\<rparr>)])
         \<and> executionCount svc' = 2 \<and> eoSide eo = BID \<and> eoPrice eo = 100
         \<and> visibleQuantity eo = 1000000 \<and> orderId eo = ''AlgoExec2''"
    by (auto simp: example_algo_def)
  from AlgoExecutionTrade_spread_filter [OF GetBidOffer_wide_book w c]
  have third: "AlgoExecutionTrade example_algo wide_book = Inr (example_algo, [])"
    by simp
  from example_prices_on_grid c first second third show ?thesis by (intro conjI)
qed

section \<open>Booking of executions\<close>

lemma smod_3_nonneg: "0 \<le> (n::int) \<Longrightarrow> n smod 3 = n mod 3"
  by (simp add: signed_modulo_int_def sgn_if)

text \<open>An execution order on the bid of the two-year note.\<close>

definition example_exec :: ExecutionOrder where
  "example_exec =
     \<lparr>eoProduct = \<lparr>productId = ''912828V23''\<rparr>, eoSide = BID, orderId = ''AlgoExec1'',
      orderType = MARKET, eoPrice = 100, visibleQuantity = 1000000, hiddenQuantity = 0,
      parentOrderId = ''PARENT_ORDER_ID'', isChildOrder = False\<rparr>"

text \<open>
  C10, as stated. The claim is that the quantity of the booked trade equals the visible
  plus the hidden quantity for every execution order. With a visible and a hidden quantity
  of \<open>2 ^ 62\<close>, both values of a \<open>long\<close>, the sum is \<open>2 ^ 63\<close> and the trade that is
  stored and delivered twice has the quantity \<open>- 2 ^ 63\<close>.
\<close>

theorem TradeBooking_quantity_wraps:
  "is_long 4611686018427387904
   \<and> TradeBookingServiceListener_ProcessAdd \<lparr>bookedCount = 0\<rparr>
        \<lparr>trades = Map.empty, tbListeners = [3]\<rparr>
        (example_exec\<lparr>visibleQuantity := 4611686018427387904,
                       hiddenQuantity := 4611686018427387904\<rparr>)
     = Inr (\<lparr>bookedCount = 1\<rparr>,
            \<lparr>trades = [''AlgoExec1'' \<mapsto>
                 \<lparr>tradeProduct = \<lparr>productId = ''912828V23''\<rparr>, tradeId = ''AlgoExec1'',
                  tradePrice = 100, tradeBook = ''TRSY2'',
                  tradeQuantity = - 9223372036854775808, tradeSide = SELL\<rparr>],
              tbListeners = [3]\<rparr>,
            [(3, \<lparr>tradeProduct = \<lparr>productId = ''912828V23''\<rparr>, tradeId = ''AlgoExec1'',
                  tradePrice = 100, tradeBook = ''TRSY2'',
                  tradeQuantity = - 9223372036854775808, tradeSide = SELL\<rparr>),
             (3, \<lparr>tradeProduct = \<lparr>productId = ''912828V23''\<rparr>, tradeId = ''AlgoExec1'',
                  tradePrice = 100, tradeBook = ''TRSY2'',
                  tradeQuantity = - 9223372036854775808, tradeSide = SELL\<rparr>)])
   \<and> (4611686018427387904 :: int) + 4611686018427387904 \<noteq> - 9223372036854775808"
  by (simp add: TradeBookingServiceListener_ProcessAdd_def Let_def then_do_def vector_at_def
        marketBooks_def TradeBookingService_OnMessage_def BookTrade_def notify_def
        example_exec_def long_add_def wrap_long_def is_long_def signed_modulo_int_def)

text \<open>
  C10, amended. For every execution order whose visible plus hidden quantity is a value of
  a \<open>long\<close>, processed by a listener whose counter is non-negative and below the largest
  \<open>long\<close> (it starts at 0 and only increments), the booked trade sells when the order
  priced the bid and buys when it priced the offer, its quantity is the visible plus the
  hidden quantity, its book is the entry of \<open>TRSY1, TRSY2, TRSY3\<close> at the incremented
  counter modulo 3, and it takes product, id and price from the order. The trade is stored
  by \<open>OnMessage\<close>, which delivers it to every listener of the booking service, and is then
  delivered to every listener again by \<open>BookTrade\<close>.
\<close>

theorem TradeBooking_ProcessAdd_books_trade:
  assumes "0 \<le> bookedCount lst" and "bookedCount lst < 2 ^ 63 - 1"
    and "is_long (visibleQuantity execOrder + hiddenQuantity execOrder)"
  shows "\<exists>t svc'.
           TradeBookingServiceListener_ProcessAdd lst svc execOrder
             = Inr (lst\<lparr>bookedCount := bookedCount lst + 1\<rparr>, svc',
                    map (\<lambda>l. (l, t)) (tbListeners svc) @ map (\<lambda>l. (l, t)) (tbListeners svc))
         \<and> tradeSide t = (case eoSide execOrder of BID \<Rightarrow> SELL | OFFER \<Rightarrow> BUY)
         \<and> tradeQuantity t = visibleQuantity execOrder + hiddenQuantity execOrder
         \<and> tradeBook t = [''TRSY1'', ''TRSY2'', ''TRSY3''] ! nat ((bookedCount lst + 1) mod 3)
         \<and> tradeProduct t = eoProduct execOrder \<and> tradeId t = orderId execOrder
         \<and> tradePrice t = eoPrice execOrder
         \<and> TradeBookingService_OnMessage svc t = (svc', map (\<lambda>l. (l, t)) (tbListeners svc))
         \<and> BookTrade svc' t = (svc', map (\<lambda>l. (l, t)) (tbListeners svc))
         \<and> trades svc' (tradeId t) = Some t"
proof -
  have c: "long_add (bookedCount lst) 1 = bookedCount lst + 1"
    using assms(1,2) by (intro long_add_in_range) (simp add: is_long_def)
  have q: "long_add (visibleQuantity execOrder) (hiddenQuantity execOrder)
           = visibleQuantity execOrder + hiddenQuantity execOrder"
    using assms(3) by (rule long_add_in_range)
  have m: "(bookedCount lst + 1) smod 3 = (bookedCount lst + 1) mod 3"
    using assms(1) by (intro smod_3_nonneg) simp
  have r: "0 \<le> (bookedCount lst + 1) mod 3" "(bookedCount lst + 1) mod 3 < 3"
    by simp_all
  have v: "vector_at marketBooks ((bookedCount lst + 1) smod 3)
           = Inr ([''TRSY1'', ''TRSY2'', ''TRSY3''] ! nat ((bookedCount lst + 1) mod 3))"
    unfolding m using r by (simp add: vector_at_def marketBooks_def)
  define t where "t = \<lparr>tradeProduct = eoProduct execOrder, tradeId = orderId execOrder,
      tradePrice = eoPrice execOrder,
      tradeBook = [''TRSY1'', ''TRSY2'', ''TRSY3''] ! nat ((bookedCount lst + 1) mod 3),
      tradeQuantity = visibleQuantity execOrder + hiddenQuantity execOrder,
      tradeSide = (if eoSide execOrder = BID then SELL else BUY)\<rparr>"
  define svc' where "svc' = svc\<lparr>trades := (trades svc)(orderId execOrder \<mapsto> t)\<rparr>"
  have run: "TradeBookingServiceListener_ProcessAdd lst svc execOrder
             = Inr (lst\<lparr>bookedCount := bookedCount lst + 1\<rparr>, svc',
                    map (\<lambda>l. (l, t)) (tbListeners svc) @ map (\<lambda>l. (l, t)) (tbListeners svc))"
    by (simp add: TradeBookingServiceListener_ProcessAdd_def Let_def c q v then_do_def
          TradeBookingService_OnMessage_def BookTrade_def notify_def t_def svc'_def)
  have side: "tradeSide t = (case eoSide execOrder of BID \<Rightarrow> SELL | OFFER \<Rightarrow> BUY)"
    by (cases "eoSide execOrder") (simp_all add: t_def)
  have fields: "tradeQuantity t = visibleQuantity execOrder + hiddenQuantity execOrder"
    "tradeBook t = [''TRSY1'', ''TRSY2'', ''TRSY3''] ! nat ((bookedCount lst + 1) mod 3)"
    "tradeProduct t = eoProduct execOrder" "tradeId t = orderId execOrder"
    "tradePrice t = eoPrice execOrder"
    by (simp_all add: t_def)
  have calls: "TradeBookingService_OnMessage svc t = (svc', map (\<lambda>l. (l, t)) (tbListeners svc))"
    "BookTrade svc' t = (svc', map (\<lambda>l. (l, t)) (tbListeners svc))"
    "trades svc' (tradeId t) = Some t"
    by (simp_all add: TradeBookingService_OnMessage_def BookTrade_def notify_def svc'_def fields)
  from run side fields calls show ?thesis by blast
qed

theorem TradeBooking_ProcessAdd_books_trade_witness:
  "(0::int) \<le> bookedCount \<lparr>bookedCount = 0\<rparr>
   \<and> bookedCount \<lparr>bookedCount = 0\<rparr> < 2 ^ 63 - 1
   \<and> is_long (visibleQuantity example_exec + hiddenQuantity example_exec)
   \<and> (\<exists>t svc'. TradeBookingServiceListener_ProcessAdd \<lparr>bookedCount = 0\<rparr>
                   \<lparr>trades = Map.empty, tbListeners = [3]\<rparr> example_exec
                 = Inr (\<lparr>bookedCount = 1\<rparr>, svc', [(3, t), (3, t)])
          \<and> tradeSide t = SELL \<and> tradeQuantity t = 1000000 \<and> tradeBook t = ''TRSY2'')"
proof -
  have h: "is_long (visibleQuantity example_exec + hiddenQuantity example_exec)"
    by (simp add: example_exec_def is_long_def)
  from TradeBooking_ProcessAdd_books_trade
          [of "\<lparr>bookedCount = 0\<rparr>" example_exec "\<lparr>trades = Map.empty, tbListeners = [3]\<rparr>"] h
  show ?thesis by (auto simp: example_exec_def)
qed

section \<open>Positions\<close>

text \<open>
  The signed quantity of a trade, positive for a purchase and negative for a sale, and the
  volume traded on a product: the sum of the magnitudes of the quantities of its trades.
\<close>

definition signed_quantity :: "Trade \<Rightarrow> int" where
  "signed_quantity t = (if tradeSide t = BUY then tradeQuantity t else - tradeQuantity t)"

definition traded_volume :: "Trade list \<Rightarrow> string \<Rightarrow> int" where
  "traded_volume ts pid =
     sum_list (map (\<lambda>t. \<bar>tradeQuantity t\<bar>) (filter (\<lambda>t. productId (tradeProduct t) = pid) ts))"

text \<open>
  The trades of the example of the claim, and two purchases in one book whose sum is one
  more than the largest \<open>long\<close>.
\<close>

definition example_trades :: "Trade list" where
  "example_trades =
     [\<lparr>tradeProduct = \<lparr>productId = ''912828V23''\<rparr>, tradeId = ''T1'', tradePrice = 100,
       tradeBook = ''A'', tradeQuantity = 1000000, tradeSide = BUY\<rparr>,
      \<lparr>tradeProduct = \<lparr>productId = ''912828V23''\<rparr>, tradeId = ''T2'', tradePrice = 100,
       tradeBook = ''A'', tradeQuantity = 400000, tradeSide = SELL\<rparr>,
      \<lparr>tradeProduct = \<lparr>productId = ''912828V23''\<rparr>, tradeId = ''T3'', tradePrice = 100,
       tradeBook = ''B'', tradeQuantity = 200000, tradeSide = BUY\<rparr>]"

definition overflowing_trades :: "Trade list" where
  "overflowing_trades =
     [\<lparr>tradeProduct = \<lparr>productId = ''912828V23''\<rparr>, tradeId = ''T1'', tradePrice = 100,
       tradeBook = ''A'', tradeQuantity = 9223372036854775807, tradeSide = BUY\<rparr>,
      \<lparr>tradeProduct = \<lparr>productId = ''912828V23''\<rparr>, tradeId = ''T2'', tradePrice = 100,
       tradeBook = ''A'', tradeQuantity = 1, tradeSide = BUY\<rparr>]"

lemma fold_total:
  "fold (\<lambda>kv total. long_add total (snd kv)) m acc
   = (if m = [] then acc else wrap_long (acc + sum_list (map snd (m :: ('k \<times> int) list))))"
proof (induction m arbitrary: acc)
  case Nil
  show ?case by simp
next
  case (Cons kv m)
  have "fold (\<lambda>kv total. long_add total (snd kv)) (kv # m) acc
        = fold (\<lambda>kv total. long_add total (snd kv)) m (long_add acc (snd kv))"
    by simp
  also have "\<dots> = (if m = [] then long_add acc (snd kv)
                     else wrap_long (long_add acc (snd kv) + sum_list (map snd m)))"
    by (rule Cons.IH)
  finally have step: "fold (\<lambda>kv total. long_add total (snd kv)) (kv # m) acc
        = (if m = [] then long_add acc (snd kv)
           else wrap_long (long_add acc (snd kv) + sum_list (map snd m)))" .
  show ?case
    unfolding step by (simp add: long_add_def wrap_long_add_left add.assoc)
qed

lemma GetAggregatePosition_sum:
  "GetAggregatePosition pos = wrap_long (sum_list (map snd (bookPositions pos)))"
  by (simp add: GetAggregatePosition_def fold_total wrap_long_0)

lemma sum_update:
  "wrap_long (sum_list (map snd
      (AList.update k (long_add (case map_of m k of None \<Rightarrow> 0 | Some v \<Rightarrow> v) q) m)))
   = wrap_long (sum_list (map snd (m :: ('k \<times> int) list)) + q)"
proof (induction m)
  case Nil
  show ?case by (simp add: long_add_def wrap_long_idem)
next
  case (Cons kv m)
  show ?case
  proof (cases "fst kv = k")
    case True
    have "wrap_long (wrap_long (snd kv + q) + sum_list (map snd m))
          = wrap_long (snd kv + q + sum_list (map snd m))"
      by (rule wrap_long_add_left)
    with True show ?thesis
      by (cases kv) (simp add: long_add_def ac_simps)
  next
    case False
    have "wrap_long (snd kv + sum_list (map snd
            (AList.update k (long_add (case map_of m k of None \<Rightarrow> 0 | Some v \<Rightarrow> v) q) m)))
          = wrap_long (snd kv + wrap_long (sum_list (map snd
            (AList.update k (long_add (case map_of m k of None \<Rightarrow> 0 | Some v \<Rightarrow> v) q) m))))"
      by (simp add: wrap_long_add_right)
    also have "\<dots> = wrap_long (snd kv + wrap_long (sum_list (map snd m) + q))"
      by (simp only: Cons.IH)
    also have "\<dots> = wrap_long (snd kv + (sum_list (map snd m) + q))"
      by (rule wrap_long_add_right)
    finally show ?thesis
      using False by (cases kv) (simp add: add.assoc)
  qed
qed

lemma aggregate_AddPosition:
  "GetAggregatePosition (Position_AddPosition pos b q) = wrap_long (GetAggregatePosition pos + q)"
  by (simp add: GetAggregatePosition_sum Position_AddPosition_def map_plus_eq_def sum_update
        wrap_long_add_left)

lemma aggregate_merge:
  "GetAggregatePosition (fold (\<lambda>kv np. Position_AddPosition np (fst kv) (snd kv)) m pos)
   = wrap_long (GetAggregatePosition pos + sum_list (map snd m))"
proof (induction m arbitrary: pos)
  case Nil
  show ?case by (simp add: GetAggregatePosition_sum wrap_long_idem)
next
  case (Cons kv m)
  show ?case
    by (simp add: Cons.IH aggregate_AddPosition wrap_long_add_left add.assoc)
qed

lemma aggregate_new: "GetAggregatePosition (new_Position p) = 0"
  by (simp add: GetAggregatePosition_def new_Position_def)

lemma aggregate_default:
  "GetAggregatePosition (positions_at svc pid) =
    (case positions svc pid of None \<Rightarrow> 0 | Some p \<Rightarrow> GetAggregatePosition p)"
  by (simp add: positions_at_def aggregate_new split: option.splits)

lemma positions_AddTrade:
  "positions (fst (AddTrade svc t)) =
     (positions svc)(productId (tradeProduct t) \<mapsto>
        fold (\<lambda>kv np. Position_AddPosition np (fst kv) (snd kv))
          (bookPositions (positions_at svc (productId (tradeProduct t))))
          (Position_AddPosition (new_Position (tradeProduct t)) (tradeBook t)
             (if tradeSide t = BUY then tradeQuantity t else long_neg (tradeQuantity t))))"
  by (simp add: AddTrade_def Let_def GetPositions_def)

lemma aggregate_AddTrade:
  "GetAggregatePosition (positions_at (fst (AddTrade svc t)) pid)
   = wrap_long (GetAggregatePosition (positions_at svc pid)
       + (if productId (tradeProduct t) = pid then signed_quantity t else 0))"
proof (cases "productId (tradeProduct t) = pid")
  case True
  let ?q = "if tradeSide t = BUY then tradeQuantity t else long_neg (tradeQuantity t)"
  have q: "wrap_long (a + ?q) = wrap_long (a + signed_quantity t)" for a
    by (simp add: signed_quantity_def long_neg_def wrap_long_add_right)
  have "GetAggregatePosition (positions_at (fst (AddTrade svc t)) pid)
        = wrap_long (wrap_long (GetAggregatePosition (new_Position (tradeProduct t)) + ?q)
          + sum_list (map snd (bookPositions (positions_at svc pid))))"
    using True
    by (simp only: positions_at_def [of "fst (AddTrade svc t)"] positions_AddTrade
          aggregate_merge aggregate_AddPosition fun_upd_same option.case)
  also have "\<dots> = wrap_long (sum_list (map snd (bookPositions (positions_at svc pid))) + ?q)"
    by (simp add: aggregate_new wrap_long_add_left add.commute)
  also have "\<dots> = wrap_long (sum_list (map snd (bookPositions (positions_at svc pid)))
                     + signed_quantity t)"
    by (rule q)
  also have "\<dots> = wrap_long (GetAggregatePosition (positions_at svc pid) + signed_quantity t)"
    by (simp add: GetAggregatePosition_sum wrap_long_add_left)
  finally show ?thesis using True by simp
next
  case False
  have "positions_at (fst (AddTrade svc t)) pid = positions_at svc pid"
    using False by (simp add: positions_at_def positions_AddTrade)
  moreover have "wrap_long (GetAggregatePosition (positions_at svc pid))
                 = GetAggregatePosition (positions_at svc pid)"
    by (simp add: GetAggregatePosition_sum wrap_long_idem)
  ultimately show ?thesis using False by simp
qed

lemma aggregate_AddTrades:
  "GetAggregatePosition (positions_at (fst (AddTrades svc ts)) pid)
   = wrap_long (GetAggregatePosition (positions_at svc pid)
       + sum_list (map signed_quantity (filter (\<lambda>t. productId (tradeProduct t) = pid) ts)))"
proof (induction ts arbitrary: svc)
  case Nil
  show ?case
    by (simp add: GetAggregatePosition_sum wrap_long_idem)
next
  case (Cons t ts)
  have "fst (AddTrades svc (t # ts)) = fst (AddTrades (fst (AddTrade svc t)) ts)"
    by (simp add: split_beta Let_def)
  then show ?case
    by (simp add: Cons.IH aggregate_AddTrade wrap_long_add_left add.assoc)
qed


lemma signed_le_volume:
  "\<bar>sum_list (map signed_quantity ts)\<bar> \<le> sum_list (map (\<lambda>t. \<bar>tradeQuantity t\<bar>) ts)"
proof (induction ts)
  case Nil
  show ?case by simp
next
  case (Cons t ts)
  have "\<bar>signed_quantity t\<bar> = \<bar>tradeQuantity t\<bar>" by (simp add: signed_quantity_def)
  with Cons show ?case by simp
qed

text \<open>
  C6, as stated. The claim is that the aggregate position equals the sum of the signed
  quantities for every sequence of trades. Both quantities below are values of a
  \<open>long\<close>; after the purchase of 9223372036854775807 and the purchase of 1 the sum is
  \<open>2 ^ 63\<close>, and the aggregate position of the product is \<open>- 2 ^ 63\<close>.
\<close>

theorem aggregate_wraps_at_overflow:
  "is_long 9223372036854775807 \<and> is_long 1
   \<and> sum_list (map signed_quantity overflowing_trades) = 9223372036854775808
   \<and> GetAggregatePosition
        (positions_at (fst (AddTrades new_PositionService overflowing_trades)) ''912828V23'')
       = - 9223372036854775808"
proof -
  have init: "GetAggregatePosition (positions_at new_PositionService ''912828V23'') = 0"
    by (simp add: aggregate_default new_PositionService_def)
  have total: "sum_list (map signed_quantity
      (filter (\<lambda>t. productId (tradeProduct t) = ''912828V23'') overflowing_trades))
      = 9223372036854775808"
    by (simp add: overflowing_trades_def signed_quantity_def)
  have "GetAggregatePosition
        (positions_at (fst (AddTrades new_PositionService overflowing_trades)) ''912828V23'')
       = wrap_long (0 + 9223372036854775808)"
    by (simp only: aggregate_AddTrades init total)
  then show ?thesis
    by (simp add: wrap_long_def is_long_def overflowing_trades_def signed_quantity_def)
qed

text \<open>
  C6, amended. For every sequence of trades applied to a new service through \<open>AddTrade\<close>
  whose volume on a product is below \<open>2 ^ 63\<close>, so that no book total and no aggregate
  leaves the range of a \<open>long\<close>, the aggregate position of the product equals the sum
  of the signed quantities of all its trades, whatever their books. In particular, buying
  1,000,000 in book A, selling 400,000 in book A and buying 200,000 in book B gives the
  aggregate 800,000 with 600,000 in book A and 200,000 in book B.
\<close>

theorem aggregate_is_sum_of_signed_trades:
  assumes "traded_volume ts pid < 2 ^ 63"
  shows "GetAggregatePosition (positions_at (fst (AddTrades new_PositionService ts)) pid)
         = sum_list (map signed_quantity (filter (\<lambda>t. productId (tradeProduct t) = pid) ts))
       \<and> GetAggregatePosition
            (positions_at (fst (AddTrades new_PositionService example_trades)) ''912828V23'')
          = 800000
       \<and> map_of (bookPositions
            (positions_at (fst (AddTrades new_PositionService example_trades)) ''912828V23''))
          = [''A'' \<mapsto> 600000, ''B'' \<mapsto> 200000]"
proof -
  let ?sum = "sum_list (map signed_quantity (filter (\<lambda>t. productId (tradeProduct t) = pid) ts))"
  have "\<bar>?sum\<bar> < 2 ^ 63"
    using signed_le_volume [of "filter (\<lambda>t. productId (tradeProduct t) = pid) ts"] assms
    by (simp add: traded_volume_def)
  then have "is_long ?sum" unfolding is_long_def by linarith
  then have w: "wrap_long ?sum = ?sum" by (rule wrap_long_id)
  have init: "GetAggregatePosition (positions_at new_PositionService pid) = 0"
    by (simp add: aggregate_default new_PositionService_def)
  have general: "GetAggregatePosition (positions_at (fst (AddTrades new_PositionService ts)) pid) = ?sum"
    by (simp only: aggregate_AddTrades init add_0 w)
  have ex: "positions_at (fst (AddTrades new_PositionService example_trades)) ''912828V23''
        = \<lparr>posProduct = \<lparr>productId = ''912828V23''\<rparr>,
           bookPositions = [(''B'', 200000), (''A'', 600000)]\<rparr>"
    by (simp add: example_trades_def new_PositionService_def AddTrade_def Let_def
          positions_at_def new_Position_def Position_AddPosition_def map_plus_eq_def
          GetPositions_def long_add_def long_neg_def wrap_long_def)
  have m: "map_of [(''B'', 200000::int), (''A'', 600000)] = [''A'' \<mapsto> 600000, ''B'' \<mapsto> 200000]"
    by (rule ext) simp
  have total: "GetAggregatePosition
      (positions_at (fst (AddTrades new_PositionService example_trades)) ''912828V23'') = 800000"
    by (simp only: ex GetAggregatePosition_sum) (simp add: wrap_long_def)
  have books: "map_of (bookPositions
      (positions_at (fst (AddTrades new_PositionService example_trades)) ''912828V23''))
      = [''A'' \<mapsto> 600000, ''B'' \<mapsto> 200000]"
    by (simp only: ex m Position.simps)
  from general total books show ?thesis by (intro conjI)
qed

theorem aggregate_is_sum_of_signed_trades_witness:
  "traded_volume example_trades ''912828V23'' < 2 ^ 63
   \<and> sum_list (map signed_quantity
        (filter (\<lambda>t. productId (tradeProduct t) = ''912828V23'') example_trades)) = 800000
   \<and> GetAggregatePosition
        (positions_at (fst (AddTrades new_PositionService example_trades)) ''912828V23'')
      = 800000"
proof -
  have h: "traded_volume example_trades ''912828V23'' < 2 ^ 63"
    by (simp add: traded_volume_def example_trades_def)
  have s: "sum_list (map signed_quantity
        (filter (\<lambda>t. productId (tradeProduct t) = ''912828V23'') example_trades)) = 800000"
    by (simp add: example_trades_def signed_quantity_def)
  from aggregate_is_sum_of_signed_trades [OF h] h s show ?thesis by simp
qed

section \<open>The inquiry life cycle\<close>

lemma OnMessage_QUOTED:
  assumes "inqState data = QUOTED"
  shows "InquiryService_OnMessage svc data
         = (svc\<lparr>inquiries := (inquiries svc)(inquiryId data \<mapsto> data\<lparr>inqState := DONE\<rparr>)\<rparr>,
            data\<lparr>inqState := DONE\<rparr>,
            notify (isListeners svc) (data\<lparr>inqState := DONE\<rparr>))"
  using assms by (subst InquiryService_OnMessage.simps) (simp add: Let_def)

lemma OnMessage_RECEIVED_resubmits:
  assumes "inqState data = RECEIVED"
  shows "InquiryService_OnMessage svc data
         = InquiryService_OnMessage
             (svc\<lparr>inquiries := (inquiries svc)(inquiryId data \<mapsto> data)\<rparr>)
             (data\<lparr>inqState := QUOTED\<rparr>)"
proof -
  have "InquiryService_OnMessage svc data
        = InquiryConnector_Publish (svc\<lparr>inquiries := (inquiries svc)(inquiryId data \<mapsto> data)\<rparr>) data"
    using assms by (subst InquiryService_OnMessage.simps) (simp add: Let_def split_beta)
  also have "\<dots> = InquiryConnector_Subscribe
                 (svc\<lparr>inquiries := (inquiries svc)(inquiryId data \<mapsto> data)\<rparr>)
                 (data\<lparr>inqState := QUOTED\<rparr>)"
    using assms by (subst InquiryConnector_Publish.simps) simp
  finally show ?thesis
    by (simp add: InquiryConnector_Subscribe.simps)
qed

lemma OnMessage_other:
  assumes "inqState data \<noteq> RECEIVED" "inqState data \<noteq> QUOTED"
  shows "InquiryService_OnMessage svc data = (svc, data, [])"
  using assms by (subst InquiryService_OnMessage.simps) (simp add: Let_def)

definition example_inquiry :: Inquiry where
  "example_inquiry =
     \<lparr>inquiryId = ''INQ1'', inqProduct = \<lparr>productId = ''912828V23''\<rparr>, inqSide = BUY,
      inqQuantity = 1000000, inqPrice = 100, inqState = RECEIVED\<rparr>"

definition example_inquiries :: InquiryService where
  "example_inquiries = \<lparr>inquiries = Map.empty, isListeners = [5]\<rparr>"

text \<open>
  C7, as stated. The claim is that ingesting an inquiry in state \<open>RECEIVED\<close> leaves it
  \<open>QUOTED\<close> with no listener notified. For a service with one listener and a received
  inquiry, the single call of \<open>OnMessage\<close> returns with the inquiry in state \<open>DONE\<close>,
  in the caller's object and in the store, and with the listener notified.
\<close>

theorem OnMessage_RECEIVED_not_left_QUOTED:
  "inqState example_inquiry = RECEIVED
   \<and> inqState (fst (snd (InquiryService_OnMessage example_inquiries example_inquiry))) = DONE
   \<and> snd (snd (InquiryService_OnMessage example_inquiries example_inquiry))
       = [(5, example_inquiry\<lparr>inqState := DONE\<rparr>)]
   \<and> map_option inqState
        (inquiries (fst (InquiryService_OnMessage example_inquiries example_inquiry)) ''INQ1'')
       = Some DONE"
  by code_simp

text \<open>
  C7, amended. Ingesting an inquiry in state \<open>RECEIVED\<close> stores it and hands it to the
  connector, which sets it to \<open>QUOTED\<close> and submits it again within the same call; that
  nested ingestion sets it to \<open>DONE\<close>, stores it and notifies every registered listener
  exactly once, and the outer call notifies nobody itself. So a call of \<open>OnMessage\<close> on
  an inquiry in state \<open>RECEIVED\<close> or \<open>QUOTED\<close> returns with the inquiry \<open>DONE\<close>,
  stored under its id, and with exactly one notification per registered listener.
\<close>

theorem OnMessage_RECEIVED_or_QUOTED_ends_DONE:
  assumes "inqState data = RECEIVED \<or> inqState data = QUOTED"
  shows "InquiryService_OnMessage svc data
         = (svc\<lparr>inquiries := (inquiries svc)(inquiryId data \<mapsto> data\<lparr>inqState := DONE\<rparr>)\<rparr>,
            data\<lparr>inqState := DONE\<rparr>,
            map (\<lambda>l. (l, data\<lparr>inqState := DONE\<rparr>)) (isListeners svc))
       \<and> (inqState data = RECEIVED \<longrightarrow>
            InquiryService_OnMessage svc data
            = InquiryService_OnMessage
                (svc\<lparr>inquiries := (inquiries svc)(inquiryId data \<mapsto> data)\<rparr>)
                (data\<lparr>inqState := QUOTED\<rparr>))"
proof (cases "inqState data = RECEIVED")
  case True
  have "InquiryService_OnMessage svc data
        = InquiryService_OnMessage
            (svc\<lparr>inquiries := (inquiries svc)(inquiryId data \<mapsto> data)\<rparr>)
            (data\<lparr>inqState := QUOTED\<rparr>)"
    using True by (rule OnMessage_RECEIVED_resubmits)
  moreover have "InquiryService_OnMessage
            (svc\<lparr>inquiries := (inquiries svc)(inquiryId data \<mapsto> data)\<rparr>)
            (data\<lparr>inqState := QUOTED\<rparr>)
        = (svc\<lparr>inquiries := (inquiries svc)(inquiryId data \<mapsto> data\<lparr>inqState := DONE\<rparr>)\<rparr>,
            data\<lparr>inqState := DONE\<rparr>,
            map (\<lambda>l. (l, data\<lparr>inqState := DONE\<rparr>)) (isListeners svc))"
    by (subst OnMessage_QUOTED) (simp_all add: notify_def)
  ultimately show ?thesis by simp
next
  case False
  with assms have q: "inqState data = QUOTED" by simp
  from False show ?thesis
    by (simp add: OnMessage_QUOTED [OF q] notify_def)
qed

theorem OnMessage_RECEIVED_or_QUOTED_ends_DONE_witness:
  "(inqState example_inquiry = RECEIVED \<or> inqState example_inquiry = QUOTED)
   \<and> InquiryService_OnMessage example_inquiries example_inquiry
       = (example_inquiries\<lparr>inquiries := [''INQ1'' \<mapsto> example_inquiry\<lparr>inqState := DONE\<rparr>]\<rparr>,
          example_inquiry\<lparr>inqState := DONE\<rparr>,
          [(5, example_inquiry\<lparr>inqState := DONE\<rparr>)])"
proof -
  have h: "inqState example_inquiry = RECEIVED \<or> inqState example_inquiry = QUOTED"
    by (simp add: example_inquiry_def)
  from OnMessage_RECEIVED_or_QUOTED_ends_DONE [OF h, of example_inquiries] h show ?thesis
    by (simp add: example_inquiry_def example_inquiries_def)
qed

section \<open>Risk\<close>

text \<open>
  Two positions: one on a product id that the PV01 table does not have, and 1,000,000 of
  the two-year note.
\<close>

definition unmapped_position :: Position where
  "unmapped_position =
     \<lparr>posProduct = \<lparr>productId = ''000000AA0''\<rparr>, bookPositions = [(''TRSY1'', 500000)]\<rparr>"

definition two_year_position :: Position where
  "two_year_position =
     \<lparr>posProduct = \<lparr>productId = ''912828V23''\<rparr>, bookPositions = [(''TRSY1'', 1000000)]\<rparr>"

text \<open>
  C8, as stated. The claim is that a position on an unmapped product aborts only its own
  risk update and leaves the processing of the positions after it unaffected. When the
  unmapped position is followed by the position on the two-year note, the exception ends
  the processing: the two-year note gets no PV01 entry, which it gets when it is processed
  without the unmapped position before it.
\<close>

theorem unmapped_product_stops_later_positions:
  "bondPV01 (productId (posProduct unmapped_position)) = None
   \<and> snd (RiskServiceListener_ProcessAdd_each new_RiskService
              [unmapped_position, two_year_position]) = Inl OutOfRange
   \<and> pv01s (fst (RiskServiceListener_ProcessAdd_each new_RiskService
                    [unmapped_position, two_year_position])) ''912828V23'' = None
   \<and> map_option pvQuantity
        (pv01s (fst (RiskServiceListener_ProcessAdd_each new_RiskService [two_year_position]))
           ''912828V23'') = Some 1000000"
  by code_simp

text \<open>
  C8, amended. For every position whose product id is absent from the PV01 table,
  \<open>AddPosition\<close> throws \<open>std::out_of_range\<close> before it changes anything: the stored
  PV01 entries of all products are as before and no listener is notified. The exception is
  not handled anywhere, so it also ends the processing of the positions that follow.
\<close>

theorem unmapped_product_throws:
  assumes "bondPV01 (productId (posProduct position)) = None"
  shows "RiskService_AddPosition svc position = (svc, Inl OutOfRange)
       \<and> thrown OutOfRange
       \<and> RiskServiceListener_ProcessAdd_each svc (position # rest) = (svc, Inl OutOfRange)"
  using assms by (simp add: RiskService_AddPosition_def Let_def)

theorem unmapped_product_throws_witness:
  "bondPV01 (productId (posProduct unmapped_position)) = None
   \<and> RiskService_AddPosition new_RiskService unmapped_position = (new_RiskService, Inl OutOfRange)
   \<and> RiskServiceListener_ProcessAdd_each new_RiskService [unmapped_position, two_year_position]
       = (new_RiskService, Inl OutOfRange)"
proof -
  have h: "bondPV01 (productId (posProduct unmapped_position)) = None"
    by (simp add: unmapped_position_def bondPV01_def)
  from unmapped_product_throws [OF h, of new_RiskService "[two_year_position]"] h
  show ?thesis by simp
qed

end
